theory Spec2Isabelle
  imports Main
begin

section \<open>Strings\<close>

text \<open>
  A Python \<open>str\<close> is a sequence of Unicode code points, so it is modelled as a list of
  natural numbers (one per code point) and not as a list of bytes. \<open>str\<close> turns an ASCII
  literal into such a list; characters that cannot be written in a literal (the
  backslash, the newline, the emoji of the message templates) are given by their code
  point.
\<close>

type_synonym pystr = "nat list"

definition str :: "string \<Rightarrow> pystr" where
  "str s = map of_char s"

definition backslash :: nat where
  "backslash = 92"

definition newline :: nat where
  "newline = 10"

section \<open>The sanitizer\<close>

text \<open>
  \<^verbatim>\<open>
  def escape_markdown_v2(text: str) -> str:
      escape_chars = r'_*[]()~`>#+-=|{}.!'
      return ''.join(f'\\{char}' if char in escape_chars else char for char in text)
  \<close>
  The generator yields one piece per character of \<open>text\<close>, and \<open>join\<close> concatenates the
  pieces in order.
\<close>

definition escape_chars :: pystr where
  "escape_chars = str ''_*[]()~`>#+-=|{}.!''"

definition escape_markdown_v2 :: "pystr \<Rightarrow> pystr" where
  "escape_markdown_v2 text =
     concat (map (\<lambda>char. if char \<in> set escape_chars then [backslash, char] else [char]) text)"

text \<open>
  The sanitizer as the specification words it: the string is read once from left to
  right, a character of the fixed set is replaced by a backslash followed by the
  character, and any other character is copied. The fixed set is written out by code
  point: \<open>! # ( ) * + - . = > [ ] _ ` { | } ~\<close>.
\<close>

definition reserved :: "nat set" where
  "reserved = {33, 35, 40, 41, 42, 43, 45, 46, 61, 62, 91, 93, 95, 96, 123, 124, 125, 126}"

fun sanitize_spec :: "pystr \<Rightarrow> pystr" where
  "sanitize_spec [] = []"
| "sanitize_spec (c # cs) =
     (if c \<in> reserved then backslash # c # sanitize_spec cs else c # sanitize_spec cs)"

section \<open>The pattern of the ping statistics\<close>

text \<open>
  \<^verbatim>\<open>stats = re.findall(r'(\d+\.?\d*) ms', stdout)\<close>

  The pattern is modelled as a backtracking matcher in the list-of-successes style: each
  piece of the pattern maps the text still to be read to the list of the remainders it
  can leave, in the order in which the \<open>re\<close> module tries them (a greedy quantifier
  tries the longest match first). The first element of the list of a whole pattern is
  the match that \<open>re\<close> reports.

  For a \<open>str\<close> pattern, \<open>\d\<close> is the class of the Unicode decimal digits. That table
  belongs to the Python runtime, so the class is a parameter \<open>digit\<close> of the matcher.
\<close>

fun rx_star :: "(nat \<Rightarrow> bool) \<Rightarrow> pystr \<Rightarrow> pystr list" where
  "rx_star p [] = [[]]"
| "rx_star p (c # cs) = (if p c then rx_star p cs @ [c # cs] else [c # cs])"

definition rx_plus :: "(nat \<Rightarrow> bool) \<Rightarrow> pystr \<Rightarrow> pystr list" where
  "rx_plus p s = (case s of [] \<Rightarrow> [] | c # cs \<Rightarrow> if p c then rx_star p cs else [])"

definition rx_opt :: "(nat \<Rightarrow> bool) \<Rightarrow> pystr \<Rightarrow> pystr list" where
  "rx_opt p s = (case s of [] \<Rightarrow> [[]] | c # cs \<Rightarrow> if p c then [cs, c # cs] else [c # cs])"

definition rx_lit :: "pystr \<Rightarrow> pystr \<Rightarrow> pystr list" where
  "rx_lit lit s = (if take (length lit) s = lit then [drop (length lit) s] else [])"

text \<open>
  \<open>rx_stat_ends digit s\<close> lists, for every way the pattern matches a prefix of \<open>s\<close>, the
  text left after the group \<open>(\d+\.?\d*)\<close> and the text left after the whole match.
\<close>

definition rx_stat_ends :: "(nat \<Rightarrow> bool) \<Rightarrow> pystr \<Rightarrow> (pystr \<times> pystr) list" where
  "rx_stat_ends digit s =
     List.bind (rx_plus digit s) (\<lambda>r1.
     List.bind (rx_opt (\<lambda>c. c = of_char (CHR ''.'')) r1) (\<lambda>r2.
     List.bind (rx_star digit r2) (\<lambda>r3.
     map (\<lambda>r4. (r3, r4)) (rx_lit (str '' ms'') r3))))"

text \<open>The match at the start of \<open>s\<close>, if any: the text of the group and the text left.\<close>

definition rx_stat_match :: "(nat \<Rightarrow> bool) \<Rightarrow> pystr \<Rightarrow> (pystr \<times> pystr) option" where
  "rx_stat_match digit s =
     (case rx_stat_ends digit s of
        [] \<Rightarrow> None
      | (r3, r4) # _ \<Rightarrow> Some (take (length s - length r3) s, r4))"

lemma rx_star_len: "r \<in> set (rx_star p s) \<Longrightarrow> length r \<le> length s"
  by (induction s) (auto split: if_splits)

lemma rx_plus_len: "r \<in> set (rx_plus p s) \<Longrightarrow> length r < length s"
  by (auto simp: rx_plus_def split: list.splits if_splits dest: rx_star_len)

lemma rx_opt_len: "r \<in> set (rx_opt p s) \<Longrightarrow> length r \<le> length s"
  by (auto simp: rx_opt_def split: list.splits if_splits)

lemma rx_lit_len: "r \<in> set (rx_lit l s) \<Longrightarrow> length r \<le> length s"
  by (auto simp: rx_lit_def split: if_splits)

lemma rx_stat_ends_len:
  assumes "(r3, r4) \<in> set (rx_stat_ends digit s)"
  shows "length r4 < length s"
proof -
  from assms obtain r1 r2 where
    "r1 \<in> set (rx_plus digit s)" "r2 \<in> set (rx_opt (\<lambda>c. c = of_char (CHR ''.'')) r1)"
    "r3 \<in> set (rx_star digit r2)" "r4 \<in> set (rx_lit (str '' ms'') r3)"
    by (auto simp: rx_stat_ends_def List.bind_def)
  then have "length r1 < length s" "length r2 \<le> length r1" "length r3 \<le> length r2"
    "length r4 \<le> length r3"
    by (simp_all add: rx_plus_len rx_opt_len rx_star_len rx_lit_len)
  then show ?thesis by linarith
qed

lemma rx_stat_match_len:
  assumes "rx_stat_match digit s = Some (g, rest)"
  shows "length rest < length s"
proof -
  from assms obtain r3 xs where "rx_stat_ends digit s = (r3, rest) # xs"
    by (auto simp: rx_stat_match_def split: list.splits)
  then have "(r3, rest) \<in> set (rx_stat_ends digit s)" by simp
  then show ?thesis by (rule rx_stat_ends_len)
qed

text \<open>
  \<open>findall\<close> scans the text from left to right: where the pattern matches, it yields the
  text of the group and goes on after the match (a match is never empty here, it ends
  with \<open> ms\<close>); where it does not, it moves one character on.
\<close>

function findall_stat :: "(nat \<Rightarrow> bool) \<Rightarrow> pystr \<Rightarrow> pystr list" where
  "findall_stat digit [] = []"
| "findall_stat digit (c # cs) =
     (case rx_stat_match digit (c # cs) of
        None \<Rightarrow> findall_stat digit cs
      | Some (g, rest) \<Rightarrow> g # findall_stat digit rest)"
  by pat_completeness auto
termination
  by (relation "measure (\<lambda>(digit, s). length s)") (auto dest: rx_stat_match_len)

section \<open>Exceptions, events and the world outside the bot\<close>

text \<open>
  An exception is a value; \<open>Exn t\<close> stands for an instance \<open>e\<close> of a subclass of
  \<open>Exception\<close> with \<open>str(e) = t\<close>. A computation takes the trace of the calls made so far
  and returns its result, or the exception it raised, with the extended trace.
\<close>

datatype exn = Exn (exn_str: pystr)

datatype parse_mode = Plain | MarkdownV2

text \<open>
  The calls that leave the process. \<open>EditText m t p\<close> edits the message that was sent by
  the call at position \<open>m\<close> of the trace. A call is recorded when it is made, whether or
  not it then raises.
\<close>

datatype event =
    ReplyText pystr
  | ReplyMarkdownV2 pystr
  | EditText nat pystr parse_mode
  | Popen "pystr list"
  | Speedtest
  | LogError pystr

record user =
  full_name :: pystr
  user_id :: int

text \<open>
  The handlers are registered for command messages, so \<open>update.message\<close> is present when
  one of them runs, and \<open>update.effective_message\<close>, which the error handler tests, is
  then that message; \<open>update.effective_user\<close> may be \<open>None\<close>. \<open>update_str\<close> is
  \<open>str(update)\<close>.
\<close>

record update =
  effective_user :: "user option"
  effective_message :: bool
  update_str :: pystr

text \<open>What a run of the speedtest library leaves in \<open>st.results\<close>; \<open>'f\<close> is \<open>float\<close>.\<close>

record 'f st_results =
  download :: 'f
  upload :: 'f
  ping :: 'f
  server :: "pystr \<rightharpoonup> pystr"
  client :: "pystr \<rightharpoonup> pystr"

text \<open>
  Everything the bot consults and does not define: the platform name, the ping
  subprocess (its standard output and standard error, or the exception \<open>Popen\<close> raises),
  the Telegram API (whether a call raises, given the calls made before it), the
  speedtest library (the four calls on \<open>st\<close>, as one outcome), floating-point division and
  formatting with \<open>.2f\<close>, and the digit class of \<open>re\<close>.
\<close>

record 'f env =
  platform_system :: pystr
  popen_communicate :: "pystr list \<Rightarrow> exn + pystr \<times> pystr"
  bot :: "event list \<Rightarrow> event \<Rightarrow> exn option"
  speedtest_lib :: "exn + 'f st_results"
  float_div :: "'f \<Rightarrow> int \<Rightarrow> 'f"
  format_2f :: "'f \<Rightarrow> pystr"
  unicode_digit :: "nat \<Rightarrow> bool"

type_synonym 'a io = "event list \<Rightarrow> (exn + 'a) \<times> event list"

definition return_io :: "'a \<Rightarrow> 'a io" where
  "return_io x tr = (Inr x, tr)"

definition raise_io :: "exn \<Rightarrow> 'a io" where
  "raise_io e tr = (Inl e, tr)"

definition lift_io :: "exn + 'a \<Rightarrow> 'a io" where
  "lift_io r tr = (r, tr)"

definition bind_io :: "'a io \<Rightarrow> ('a \<Rightarrow> 'b io) \<Rightarrow> 'b io" where
  "bind_io m f tr = (case m tr of (Inl e, tr') \<Rightarrow> (Inl e, tr') | (Inr x, tr') \<Rightarrow> f x tr')"

text \<open>\<^verbatim>\<open>try: m  except Exception as e: h(e)\<close>\<close>

definition try_except :: "'a io \<Rightarrow> (exn \<Rightarrow> 'a io) \<Rightarrow> 'a io" where
  "try_except m h tr = (case m tr of (Inl e, tr') \<Rightarrow> h e tr' | (Inr x, tr') \<Rightarrow> (Inr x, tr'))"

text \<open>A call of the Telegram API; its value is the handle of the message it sent.\<close>

definition bot_call :: "'f env \<Rightarrow> event \<Rightarrow> nat io" where
  "bot_call env ev tr =
     (case bot env tr ev of
        None \<Rightarrow> (Inr (length tr), tr @ [ev])
      | Some e \<Rightarrow> (Inl e, tr @ [ev]))"

definition reply_text :: "'f env \<Rightarrow> pystr \<Rightarrow> nat io" where
  "reply_text env text = bot_call env (ReplyText text)"

definition reply_markdown_v2 :: "'f env \<Rightarrow> pystr \<Rightarrow> nat io" where
  "reply_markdown_v2 env text = bot_call env (ReplyMarkdownV2 text)"

definition edit_text :: "'f env \<Rightarrow> nat \<Rightarrow> pystr \<Rightarrow> parse_mode \<Rightarrow> nat io" where
  "edit_text env msg text mode = bot_call env (EditText msg text mode)"

definition logger_error :: "pystr \<Rightarrow> unit io" where
  "logger_error text tr = (Inr (), tr @ [LogError text])"

definition popen :: "'f env \<Rightarrow> pystr list \<Rightarrow> (pystr \<times> pystr) io" where
  "popen env command tr = (popen_communicate env command, tr @ [Popen command])"

definition run_speedtest :: "'f env \<Rightarrow> 'f st_results io" where
  "run_speedtest env tr = (speedtest_lib env, tr @ [Speedtest])"

section \<open>Python built-ins\<close>

definition quote :: nat where
  "quote = 39"

text \<open>\<open>d[key]\<close> on a dictionary; \<open>str(KeyError(key))\<close> is the key in quotes.\<close>

definition getitem :: "(pystr \<rightharpoonup> pystr) \<Rightarrow> pystr \<Rightarrow> exn + pystr" where
  "getitem d key = (case d key of None \<Rightarrow> Inl (Exn ([quote] @ key @ [quote])) | Some v \<Rightarrow> Inr v)"

text \<open>\<open>xs[i]\<close> on a list: a negative index counts from the end.\<close>

definition list_getitem :: "'a list \<Rightarrow> int \<Rightarrow> exn + 'a" where
  "list_getitem xs i =
     (if 0 \<le> i \<and> i < int (length xs) then Inr (xs ! nat i)
      else if i < 0 \<and> - i \<le> int (length xs) then Inr (xs ! nat (int (length xs) + i))
      else Inl (Exn (str ''list index out of range'')))"

text \<open>\<open>str(i)\<close> for an integer.\<close>

fun digits_nat :: "nat \<Rightarrow> pystr" where
  "digits_nat n = (if n < 10 then [48 + n] else digits_nat (n div 10) @ [48 + n mod 10])"

declare digits_nat.simps [simp del]

definition str_int :: "int \<Rightarrow> pystr" where
  "str_int i = (if i < 0 then str ''-'' @ digits_nat (nat (- i)) else digits_nat (nat i))"

text \<open>
  \<open>s.lower()\<close>, on the ASCII letters. The bot compares the result with \<open>windows\<close> only,
  and no character outside ASCII has a lower-case form that is a letter of that word,
  so the comparison is the one Python makes for every platform name.
\<close>

definition lower :: "pystr \<Rightarrow> pystr" where
  "lower s = map (\<lambda>c. if 65 \<le> c \<and> c \<le> 90 then c + 32 else c) s"

section \<open>The handlers\<close>

subsection \<open>\<open>start\<close> and \<open>help_command\<close>\<close>

definition start_message :: "pystr \<Rightarrow> int \<Rightarrow> pystr" where
  "start_message escaped_name uid =
     str ''Hi '' @ [backslash] @ str ''['' @ escaped_name
     @ [backslash] @ str '']'' @ [backslash] @ str ''('' @ str_int uid
     @ [backslash] @ str '')'' @ [backslash] @ str ''!'' @ [newline, newline]
     @ [0x1f680] @ str '' *Welcome to SpeedTest Bot*'' @ [newline]
     @ str ''   *By: Bang Ale*'' @ [newline, newline]
     @ [0x1f4cb] @ str '' *Available commands:*'' @ [newline]
     @ [0x2523] @ str '' `/start` '' @ [backslash] @ str ''- Start the bot'' @ [newline]
     @ [0x2523] @ str '' `/help` '' @ [backslash] @ str ''- Show help'' @ [newline]
     @ [0x2523] @ str '' `/speedtest` '' @ [backslash] @ str ''- Run basic speed test'' @ [newline]
     @ [0x2523] @ str '' `/speedtest_advanced` '' @ [backslash] @ str ''- Run detailed speed test''
     @ [newline]
     @ [0x2517] @ str '' `/ping <host>` '' @ [backslash] @ str ''- Ping a host'' @ [newline, newline]
     @ [0x1f539] @ str '' *Example:* `/ping google'' @ [backslash] @ str ''.com`''"

text \<open>
  \<^verbatim>\<open>
  user = update.effective_user
  try:
      escaped_name = escape_markdown_v2(user.full_name)
      message = (f"Hi \\[{escaped_name}\\]\\({user.id}\\)\\!\n\n" ...)
      await update.message.reply_markdown_v2(message)
  except Exception as e:
      logger.error(f"Error in start command: {e}")
      await update.message.reply_text("An error occurred. Please try again.")
  \<close>
  Reading \<open>full_name\<close> of \<open>None\<close> raises an \<open>AttributeError\<close> inside the \<open>try\<close>.
\<close>

definition start_body :: "'f env \<Rightarrow> update \<Rightarrow> unit io" where
  "start_body env upd =
     (case effective_user upd of
        None \<Rightarrow>
          raise_io (Exn ([quote] @ str ''NoneType'' @ [quote] @ str '' object has no attribute ''
                         @ [quote] @ str ''full_name'' @ [quote]))
      | Some u \<Rightarrow>
          bind_io (reply_markdown_v2 env
                     (start_message (escape_markdown_v2 (full_name u)) (user_id u)))
            (\<lambda>_. return_io ()))"

definition start_except :: "'f env \<Rightarrow> exn \<Rightarrow> unit io" where
  "start_except env e =
     bind_io (logger_error (str ''Error in start command: '' @ exn_str e)) (\<lambda>_.
     bind_io (reply_text env (str ''An error occurred. Please try again.'')) (\<lambda>_.
     return_io ()))"

definition start :: "'f env \<Rightarrow> update \<Rightarrow> unit io" where
  "start env upd = try_except (start_body env upd) (start_except env)"

definition help_message :: pystr where
  "help_message =
     [0x1f6e0] @ str '' *Help Center*'' @ [newline, newline]
     @ [0x1f4cb] @ str '' *Available commands:*'' @ [newline]
     @ [0x2523] @ str '' `/start` '' @ [backslash] @ str ''- Start the bot'' @ [newline]
     @ [0x2523] @ str '' `/help` '' @ [backslash] @ str ''- Show this help'' @ [newline]
     @ [0x2523] @ str '' `/speedtest` '' @ [backslash] @ str ''- Run basic speed test'' @ [newline]
     @ [0x2523] @ str '' `/speedtest_advanced` '' @ [backslash] @ str ''- Run detailed speed test''
     @ [newline]
     @ [0x2517] @ str '' `/ping <host>` '' @ [backslash] @ str ''- Ping a host'' @ [newline, newline]
     @ [0x1f539] @ str '' *Basic SpeedTest:*'' @ [newline]
     @ str ''`/speedtest` '' @ [backslash] @ str ''- Tests download, upload speeds and ping''
     @ [newline, newline]
     @ [0x1f539] @ str '' *Advanced SpeedTest:*'' @ [newline]
     @ str ''`/speedtest_advanced` '' @ [backslash] @ str ''- Includes server and ISP details''
     @ [newline, newline]
     @ [0x1f539] @ str '' *Ping Test:*'' @ [newline]
     @ str ''`/ping google.com` '' @ [backslash] @ str ''- Pings the specified host''"

definition help_body :: "'f env \<Rightarrow> unit io" where
  "help_body env = bind_io (reply_markdown_v2 env help_message) (\<lambda>_. return_io ())"

definition help_except :: "'f env \<Rightarrow> exn \<Rightarrow> unit io" where
  "help_except env e =
     bind_io (logger_error (str ''Error in help command: '' @ exn_str e)) (\<lambda>_.
     bind_io (reply_text env (str ''An error occurred. Please try again.'')) (\<lambda>_.
     return_io ()))"

definition help_command :: "'f env \<Rightarrow> update \<Rightarrow> unit io" where
  "help_command env upd = try_except (help_body env) (help_except env)"

subsection \<open>\<open>speedtest_command\<close> and \<open>speedtest_advanced\<close>\<close>

text \<open>
  \<^verbatim>\<open>
  try:
      msg = await update.message.reply_text("... Running speed test... This may take a minute")
      st = speedtest.Speedtest()
      st.get_best_server()
      download = st.download() / 1_000_000  # Mbps
      upload = st.upload() / 1_000_000  # Mbps
      ping = st.results.ping
      result = (... f"... `{download:.2f} Mbps`\n" ... f"... `{ping:.2f} ms`")
      await msg.edit_text(result, parse_mode='MarkdownV2')
  except Exception as e:
      logger.error(f"Error in speedtest command: {e}")
      await update.message.reply_text("... Failed to run speed test. Please try again later.")
  \<close>
\<close>

definition speedtest_result :: "pystr \<Rightarrow> pystr \<Rightarrow> pystr \<Rightarrow> pystr" where
  "speedtest_result download_2f upload_2f ping_2f =
     [0x1f4ca] @ str '' *SpeedTest Results*'' @ [newline, newline]
     @ [0x2b07, 0xfe0f] @ str '' *Download:* `'' @ download_2f @ str '' Mbps`'' @ [newline]
     @ [0x2b06, 0xfe0f] @ str '' *Upload:* `'' @ upload_2f @ str '' Mbps`'' @ [newline]
     @ [0x1f3d3] @ str '' *Ping:* `'' @ ping_2f @ str '' ms`''"

definition speedtest_body :: "'f env \<Rightarrow> unit io" where
  "speedtest_body env =
     bind_io (reply_text env
                ([0x23f3] @ str '' Running speed test... This may take a minute'')) (\<lambda>msg.
     bind_io (run_speedtest env) (\<lambda>st.
     bind_io (edit_text env msg
                (speedtest_result
                   (format_2f env (float_div env (download st) 1000000))
                   (format_2f env (float_div env (upload st) 1000000))
                   (format_2f env (ping st)))
                MarkdownV2) (\<lambda>_.
     return_io ())))"

definition speedtest_except :: "'f env \<Rightarrow> exn \<Rightarrow> unit io" where
  "speedtest_except env e =
     bind_io (logger_error (str ''Error in speedtest command: '' @ exn_str e)) (\<lambda>_.
     bind_io (reply_text env
                ([0x274c] @ str '' Failed to run speed test. Please try again later.'')) (\<lambda>_.
     return_io ()))"

definition speedtest_command :: "'f env \<Rightarrow> update \<Rightarrow> unit io" where
  "speedtest_command env upd = try_except (speedtest_body env) (speedtest_except env)"

text \<open>
  \<^verbatim>\<open>
      server = st.results.server['sponsor']
      country = st.results.server['country']
      isp = st.results.client['isp']
      ip = st.results.client['ip']
      result = (
          "... *Advanced SpeedTest Results*\n\n"
          f"... *Server:* `{escape_markdown_v2(server)} ({escape_markdown_v2(country)})`\n"
          f"... *ISP:* `{escape_markdown_v2(isp)}`\n"
          f"... *IP:* `{ip}`\n\n"
          f"... *Download:* `{download:.2f} Mbps`\n" ...)
      await msg.edit_text(result, parse_mode='MarkdownV2')
  \<close>
\<close>

definition advanced_result ::
  "pystr \<Rightarrow> pystr \<Rightarrow> pystr \<Rightarrow> pystr \<Rightarrow> pystr \<Rightarrow> pystr \<Rightarrow> pystr \<Rightarrow> pystr" where
  "advanced_result server_name country isp ip download_2f upload_2f ping_2f =
     [0x1f4ca] @ str '' *Advanced SpeedTest Results*'' @ [newline, newline]
     @ [0x1f30d] @ str '' *Server:* `'' @ escape_markdown_v2 server_name
     @ str '' ('' @ escape_markdown_v2 country @ str '')`'' @ [newline]
     @ [0x1f3e0] @ str '' *ISP:* `'' @ escape_markdown_v2 isp @ str ''`'' @ [newline]
     @ [0x1f4e1] @ str '' *IP:* `'' @ ip @ str ''`'' @ [newline, newline]
     @ [0x2b07, 0xfe0f] @ str '' *Download:* `'' @ download_2f @ str '' Mbps`'' @ [newline]
     @ [0x2b06, 0xfe0f] @ str '' *Upload:* `'' @ upload_2f @ str '' Mbps`'' @ [newline]
     @ [0x1f3d3] @ str '' *Ping:* `'' @ ping_2f @ str '' ms`''"

definition advanced_body :: "'f env \<Rightarrow> unit io" where
  "advanced_body env =
     bind_io (reply_text env
                ([0x23f3] @ str '' Running advanced speed test... This may take a minute''))
       (\<lambda>msg.
     bind_io (run_speedtest env) (\<lambda>st.
     bind_io (lift_io (getitem (server st) (str ''sponsor''))) (\<lambda>server_name.
     bind_io (lift_io (getitem (server st) (str ''country''))) (\<lambda>country.
     bind_io (lift_io (getitem (client st) (str ''isp''))) (\<lambda>isp.
     bind_io (lift_io (getitem (client st) (str ''ip''))) (\<lambda>ip.
     bind_io (edit_text env msg
                (advanced_result server_name country isp ip
                   (format_2f env (float_div env (download st) 1000000))
                   (format_2f env (float_div env (upload st) 1000000))
                   (format_2f env (ping st)))
                MarkdownV2) (\<lambda>_.
     return_io ())))))))"

definition advanced_except :: "'f env \<Rightarrow> exn \<Rightarrow> unit io" where
  "advanced_except env e =
     bind_io (logger_error (str ''Error in speedtest_advanced command: '' @ exn_str e)) (\<lambda>_.
     bind_io (reply_text env
                ([0x274c] @ str '' Failed to run advanced speed test. Please try again later.''))
       (\<lambda>_.
     return_io ()))"

definition speedtest_advanced :: "'f env \<Rightarrow> update \<Rightarrow> unit io" where
  "speedtest_advanced env upd = try_except (advanced_body env) (advanced_except env)"

subsection \<open>\<open>ping_command\<close>\<close>

text \<open>
  \<^verbatim>\<open>
  min_ping = stats[-3] if len(stats) >= 3 else "N/A"
  avg_ping = stats[-2] if len(stats) >= 2 else "N/A"
  max_ping = stats[-1] if len(stats) >= 1 else "N/A"
  \<close>
\<close>

definition ping_stats :: "pystr list \<Rightarrow> exn + pystr \<times> pystr \<times> pystr" where
  "ping_stats stats =
     (case (if 3 \<le> length stats then list_getitem stats (- 3) else Inr (str ''N/A'')) of
        Inl e \<Rightarrow> Inl e
      | Inr min_ping \<Rightarrow>
     (case (if 2 \<le> length stats then list_getitem stats (- 2) else Inr (str ''N/A'')) of
        Inl e \<Rightarrow> Inl e
      | Inr avg_ping \<Rightarrow>
     (case (if 1 \<le> length stats then list_getitem stats (- 1) else Inr (str ''N/A'')) of
        Inl e \<Rightarrow> Inl e
      | Inr max_ping \<Rightarrow> Inr (min_ping, avg_ping, max_ping))))"

text \<open>The texts of the ping handler, as the f-strings build them.\<close>

definition usage_text :: pystr where
  "usage_text = str ''Please specify a host to ping. Example: /ping google.com''"

definition pinging_text :: "pystr \<Rightarrow> pystr" where
  "pinging_text host = [0x23f3] @ str '' Pinging '' @ host @ str ''...''"

definition ping_error_text :: "pystr \<Rightarrow> pystr \<Rightarrow> pystr" where
  "ping_error_text host stderr =
     [0x274c] @ str '' Error pinging '' @ host @ str '':'' @ [newline] @ stderr"

definition ping_result_text :: "pystr \<Rightarrow> pystr \<Rightarrow> pystr \<Rightarrow> pystr \<Rightarrow> pystr" where
  "ping_result_text host min_ping avg_ping max_ping =
     [0x1f4f6] @ str '' *Ping Results for '' @ escape_markdown_v2 host @ str ''*''
     @ [newline, newline]
     @ [0x1f3d3] @ str '' *Min:* `'' @ min_ping @ str '' ms`'' @ [newline]
     @ [0x1f4ca] @ str '' *Avg:* `'' @ avg_ping @ str '' ms`'' @ [newline]
     @ [0x1f680] @ str '' *Max:* `'' @ max_ping @ str '' ms`''"

definition ping_unparsed_text :: "pystr \<Rightarrow> pystr \<Rightarrow> pystr" where
  "ping_unparsed_text host stdout =
     [0x26a0, 0xfe0f] @ str '' Could not parse ping results for '' @ host @ str '':''
     @ [newline, newline] @ str ''`'' @ stdout @ str ''`''"

definition ping_log_text :: "exn \<Rightarrow> pystr" where
  "ping_log_text e = str ''Error in ping command: '' @ exn_str e"

definition ping_failed_text :: "pystr \<Rightarrow> pystr" where
  "ping_failed_text host = [0x274c] @ str '' Failed to ping '' @ host @ str ''. Please try again.''"

text \<open>
  \<^verbatim>\<open>
  param = '-n' if platform.system().lower() == 'windows' else '-c'
  command = ['ping', param, '4', host]
  \<close>
\<close>

definition ping_argv :: "'f env \<Rightarrow> pystr \<Rightarrow> pystr list" where
  "ping_argv env host =
     (let param = (if lower (platform_system env) = str ''windows'' then str ''-n'' else str ''-c'')
      in [str ''ping'', param, str ''4'', host])"

text \<open>
  What the handler does with the output of the subprocess:
  \<^verbatim>\<open>
  if stderr:
      await msg.edit_text(f"... Error pinging {host}:\n{stderr}")
      return
  stats = re.findall(r'(\d+\.?\d*) ms', stdout)
  if stats:
      min_ping = ...; avg_ping = ...; max_ping = ...
      result = (f"... *Ping Results for {escape_markdown_v2(host)}*\n\n" ...)
      await msg.edit_text(result, parse_mode='MarkdownV2')
  else:
      await msg.edit_text(
          f"... Could not parse ping results for {host}:\n\n`{stdout}`", parse_mode='MarkdownV2')
  \<close>
\<close>

definition ping_report :: "'f env \<Rightarrow> pystr \<Rightarrow> nat \<Rightarrow> pystr \<Rightarrow> pystr \<Rightarrow> unit io" where
  "ping_report env host msg stdout stderr =
     (if stderr \<noteq> [] then
        bind_io (edit_text env msg (ping_error_text host stderr) Plain) (\<lambda>_. return_io ())
      else
        (let stats = findall_stat (unicode_digit env) stdout in
         if stats \<noteq> [] then
           bind_io (lift_io (ping_stats stats)) (\<lambda>(min_ping, avg_ping, max_ping).
           bind_io (edit_text env msg (ping_result_text host min_ping avg_ping max_ping)
                      MarkdownV2) (\<lambda>_.
           return_io ()))
         else
           bind_io (edit_text env msg (ping_unparsed_text host stdout) MarkdownV2) (\<lambda>_.
           return_io ())))"

text \<open>
  \<^verbatim>\<open>
  try:
      msg = await update.message.reply_text(f"... Pinging {host}...")
      ...
      process = subprocess.Popen(command, stdout=subprocess.PIPE, stderr=subprocess.PIPE,
                                 universal_newlines=True)
      stdout, stderr = process.communicate()
      ...
  except Exception as e:
      logger.error(f"Error in ping command: {e}")
      await update.message.reply_text(f"... Failed to ping {host}. Please try again.")
  \<close>
\<close>

definition ping_body :: "'f env \<Rightarrow> pystr \<Rightarrow> unit io" where
  "ping_body env host =
     bind_io (reply_text env (pinging_text host)) (\<lambda>msg.
     bind_io (popen env (ping_argv env host)) (\<lambda>(stdout, stderr).
     ping_report env host msg stdout stderr))"

definition ping_except :: "'f env \<Rightarrow> pystr \<Rightarrow> exn \<Rightarrow> unit io" where
  "ping_except env host e =
     bind_io (logger_error (ping_log_text e)) (\<lambda>_.
     bind_io (reply_text env (ping_failed_text host)) (\<lambda>_.
     return_io ()))"

text \<open>
  \<^verbatim>\<open>
  if not context.args:
      await update.message.reply_text("Please specify a host to ping. Example: /ping google.com")
      return
  host = context.args[0]
  \<close>
\<close>

definition ping_command :: "'f env \<Rightarrow> update \<Rightarrow> pystr list \<Rightarrow> unit io" where
  "ping_command env upd args =
     (case args of
        [] \<Rightarrow> bind_io (reply_text env usage_text) (\<lambda>_. return_io ())
      | host # _ \<Rightarrow> try_except (ping_body env host) (ping_except env host))"

subsection \<open>\<open>error_handler\<close>\<close>

text \<open>
  \<^verbatim>\<open>
  logger.error(f"Update {update} caused error: {context.error}", exc_info=True)
  if update.effective_message:
      await update.effective_message.reply_text(
          "... An error occurred while processing your request. Please try again later.")
  \<close>
  The error handler is called with the update whose handler raised, or with \<open>None\<close> for
  an error that belongs to no update. For \<open>None\<close> the f-string prints \<open>None\<close>, and reading
  \<open>effective_message\<close> then raises an \<open>AttributeError\<close>, after the log record is written.
\<close>

definition error_log_text :: "update option \<Rightarrow> exn \<Rightarrow> pystr" where
  "error_log_text update err =
     str ''Update ''
     @ (case update of None \<Rightarrow> str ''None'' | Some upd \<Rightarrow> update_str upd)
     @ str '' caused error: '' @ exn_str err"

definition error_reply_text :: pystr where
  "error_reply_text =
     [0x26a0, 0xfe0f]
     @ str '' An error occurred while processing your request. Please try again later.''"

definition error_handler :: "'f env \<Rightarrow> update option \<Rightarrow> exn \<Rightarrow> unit io" where
  "error_handler env update err =
     bind_io (logger_error (error_log_text update err)) (\<lambda>_.
     case update of
       None \<Rightarrow>
         raise_io (Exn ([quote] @ str ''NoneType'' @ [quote] @ str '' object has no attribute ''
                        @ [quote] @ str ''effective_message'' @ [quote]))
     | Some upd \<Rightarrow>
         if effective_message upd then
           bind_io (reply_text env error_reply_text) (\<lambda>_. return_io ())
         else return_io ())"

subsection \<open>\<open>main\<close>: the registrations\<close>

text \<open>
  \<^verbatim>\<open>
  application.add_handler(CommandHandler("start", start))
  application.add_handler(CommandHandler("help", help_command))
  application.add_handler(CommandHandler("speedtest", speedtest_command))
  application.add_handler(CommandHandler("speedtest_advanced", speedtest_advanced))
  application.add_handler(CommandHandler("ping", ping_command))
  application.add_error_handler(error_handler)
  \<close>
  Every handler receives the update and \<open>context.args\<close>; only \<open>ping_command\<close> reads the
  arguments.
\<close>

definition handler_for ::
  "pystr \<Rightarrow> ('f env \<Rightarrow> update \<Rightarrow> pystr list \<Rightarrow> unit io) option" where
  "handler_for name =
     (if name = str ''start'' then Some (\<lambda>env upd args. start env upd)
      else if name = str ''help'' then Some (\<lambda>env upd args. help_command env upd)
      else if name = str ''speedtest'' then Some (\<lambda>env upd args. speedtest_command env upd)
      else if name = str ''speedtest_advanced''
        then Some (\<lambda>env upd args. speedtest_advanced env upd)
      else if name = str ''ping'' then Some ping_command
      else None)"

text \<open>
  Modelled from the spec: the dispatcher of section 4.2, which is the framework's
  \<open>Application\<close> behind \<open>run_polling\<close> and is not part of the source. It has two states,
  idle and handling. On a command it selects the handler registered for the command name
  (exact match), invokes it and goes back to idle regardless of the outcome; a failure
  that the handler has not turned into a reply itself goes to the top-level error path,
  which is the registered \<open>error_handler\<close>, called with the update and the error. There is
  no retry. The value is the state after the command and the trace.
\<close>

datatype dispatcher_state = Idle | Handling

definition process_update ::
  "'f env \<Rightarrow> update \<Rightarrow> pystr \<Rightarrow> pystr list \<Rightarrow> event list \<Rightarrow> dispatcher_state \<times> event list" where
  "process_update env upd name args tr =
     (case handler_for name of
        None \<Rightarrow> (Idle, tr)
      | Some handler \<Rightarrow>
          (case handler env upd args tr of
             (Inr _, tr') \<Rightarrow> (Idle, tr')
           | (Inl e, tr') \<Rightarrow> (Idle, snd (error_handler env (Some upd) e tr'))))"

section \<open>Sample worlds\<close>

text \<open>
  Concrete worlds and updates on which the theorems below are evaluated. In \<open>world\<close> the
  platform name, the outcome of the ping subprocess and the behaviour of the Telegram
  API are chosen freely; the speedtest library fails with its configuration error and
  \<open>\d\<close> is the class of the ASCII digits, which is what the Unicode class is on ASCII
  text.
\<close>

definition ascii_digit :: "nat \<Rightarrow> bool" where
  "ascii_digit c = (48 \<le> c \<and> c \<le> 57)"

definition world ::
  "pystr \<Rightarrow> (exn + pystr \<times> pystr) \<Rightarrow> (event \<Rightarrow> exn option) \<Rightarrow> unit env" where
  "world system ping_outcome api =
     \<lparr> platform_system = system,
       popen_communicate = (\<lambda>_. ping_outcome),
       bot = (\<lambda>_. api),
       speedtest_lib = Inl (Exn (str ''Cannot retrieve speedtest configuration'')),
       float_div = (\<lambda>x _. x),
       format_2f = (\<lambda>_. str ''0.00''),
       unicode_digit = ascii_digit \<rparr>"

definition accept_all :: "event \<Rightarrow> exn option" where
  "accept_all ev = None"

text \<open>An API that rejects every message sent with markup, as Telegram does a malformed one.\<close>

fun reject_markup :: "event \<Rightarrow> exn option" where
  "reject_markup (ReplyMarkdownV2 t) = Some (Exn (str ''Bad Request: cannot parse entities''))"
| "reject_markup (EditText m t MarkdownV2) = Some (Exn (str ''Bad Request: cannot parse entities''))"
| "reject_markup ev = None"

definition alice :: update where
  "alice = \<lparr> effective_user = Some \<lparr> full_name = str ''Alice_B.'', user_id = 4711 \<rparr>,
             effective_message = True,
             update_str = str ''Update(update_id=1)'' \<rparr>"

text \<open>
  Two more behaviours of the API, which depend on the calls made before: a connection
  that is down for the whole command, and one that drops only the first call.
\<close>

definition refuse_all :: "event list \<Rightarrow> event \<Rightarrow> exn option" where
  "refuse_all tr ev = Some (Exn (str ''Timed out''))"

definition first_call_fails :: "event list \<Rightarrow> event \<Rightarrow> exn option" where
  "first_call_fails tr ev = (if tr = [] then Some (Exn (str ''Timed out'')) else None)"

text \<open>Whether an event is a run of the ping subprocess.\<close>

fun is_popen :: "event \<Rightarrow> bool" where
  "is_popen (Popen command) = True"
| "is_popen ev = False"

section \<open>Properties of the sanitizer\<close>

lemma escape_chars_codes:
  "escape_chars = [95, 42, 91, 93, 40, 41, 126, 96, 62, 35, 43, 45, 61, 124, 123, 125, 46, 33]"
  by (simp add: escape_chars_def str_def)

lemma set_escape_chars: "set escape_chars = reserved"
  unfolding escape_chars_codes reserved_def by auto

lemma escape_markdown_v2_Nil: "escape_markdown_v2 [] = []"
  by (simp add: escape_markdown_v2_def)

lemma escape_markdown_v2_Cons:
  "escape_markdown_v2 (c # cs) =
     (if c \<in> reserved then backslash # c # escape_markdown_v2 cs
      else c # escape_markdown_v2 cs)"
  by (simp add: escape_markdown_v2_def set_escape_chars)

lemma escape_markdown_v2_append:
  "escape_markdown_v2 (s @ t) = escape_markdown_v2 s @ escape_markdown_v2 t"
  by (simp add: escape_markdown_v2_def)

lemma escape_refines_spec: "escape_markdown_v2 s = sanitize_spec s"
  by (induction s) (simp_all add: escape_markdown_v2_Nil escape_markdown_v2_Cons)

text \<open>
  C2. For every string \<open>s\<close>, \<open>escape_markdown_v2 s\<close> is \<open>s\<close> with every character of the
  fixed set \<open>_*[]()~`>#+-=|{}.!\<close> replaced by a backslash followed by that character and
  every other character (any code point, ASCII or not) unchanged, in the original order;
  the function is total. In particular \<open>a.b_c\<close> becomes \<open>a\.b\_c\<close>.
\<close>

theorem escape_markdown_v2_correct:
  "escape_markdown_v2 s = sanitize_spec s
   \<and> escape_markdown_v2 (str ''a.b_c'')
       = str ''a'' @ [backslash] @ str ''.b'' @ [backslash] @ str ''_c''"
proof
  show "escape_markdown_v2 s = sanitize_spec s"
    by (rule escape_refines_spec)
  show "escape_markdown_v2 (str ''a.b_c'')
          = str ''a'' @ [backslash] @ str ''.b'' @ [backslash] @ str ''_c''"
    by (simp add: str_def escape_markdown_v2_Cons escape_markdown_v2_Nil reserved_def backslash_def)
qed

text \<open>
  C10. The sanitizer is not idempotent. The backslash is not in the escape set, so it is
  copied on a second pass, while the full stop it protects is escaped again:
  \<open>a.\<close> becomes \<open>a\.\<close> and then \<open>a\\.\<close>.
\<close>

theorem escape_markdown_v2_not_idempotent:
  "escape_markdown_v2 (escape_markdown_v2 (str ''a.'')) \<noteq> escape_markdown_v2 (str ''a.'')
   \<and> escape_markdown_v2 (str ''a.'') = str ''a'' @ [backslash] @ str ''.''
   \<and> escape_markdown_v2 (escape_markdown_v2 (str ''a.''))
       = str ''a'' @ [backslash, backslash] @ str ''.''
   \<and> backslash \<notin> set escape_chars
   \<and> of_char (CHR ''.'') \<in> set escape_chars"
  by (simp add: str_def escape_markdown_v2_Cons escape_markdown_v2_Nil set_escape_chars
      reserved_def backslash_def)

section \<open>The ping handler, step by step\<close>

lemma bot_call_then_return:
  "bind_io (bot_call env ev) (\<lambda>_. return_io ()) tr =
     (case bot env tr ev of None \<Rightarrow> Inr () | Some e \<Rightarrow> Inl e, tr @ [ev])"
  by (simp add: bind_io_def bot_call_def return_io_def split: option.splits)

lemma ping_except_run:
  "ping_except env host e tr =
     (case bot env (tr @ [LogError (ping_log_text e)]) (ReplyText (ping_failed_text host)) of
        None \<Rightarrow> Inr () | Some e' \<Rightarrow> Inl e',
      tr @ [LogError (ping_log_text e), ReplyText (ping_failed_text host)])"
  by (simp add: ping_except_def logger_error_def reply_text_def bind_io_def bot_call_def
      return_io_def split: option.splits)

lemma ping_body_run:
  assumes "bot env tr (ReplyText (pinging_text host)) = None"
    and "popen_communicate env (ping_argv env host) = Inr (stdout, stderr)"
  shows "ping_body env host tr =
           ping_report env host (length tr) stdout stderr
             (tr @ [ReplyText (pinging_text host), Popen (ping_argv env host)])"
  using assms
  by (simp add: ping_body_def reply_text_def bind_io_def bot_call_def popen_def)

lemma list_getitem_neg:
  "0 < k \<Longrightarrow> k \<le> length xs \<Longrightarrow> list_getitem xs (- int k) = Inr (xs ! (length xs - k))"
  by (simp add: list_getitem_def nat_diff_distrib' of_nat_diff)

lemma ping_stats_run:
  "stats \<noteq> [] \<Longrightarrow>
   ping_stats stats =
     Inr (if 3 \<le> length stats then stats ! (length stats - 3) else str ''N/A'',
          if 2 \<le> length stats then stats ! (length stats - 2) else str ''N/A'',
          stats ! (length stats - 1))"
  using list_getitem_neg [of 3 stats] list_getitem_neg [of 2 stats] list_getitem_neg [of 1 stats]
  by (cases stats) (simp_all add: ping_stats_def)

lemma ping_report_stderr:
  assumes "stderr \<noteq> []"
  shows "ping_report env host msg stdout stderr tr =
           (case bot env tr (EditText msg (ping_error_text host stderr) Plain) of
              None \<Rightarrow> Inr () | Some e \<Rightarrow> Inl e,
            tr @ [EditText msg (ping_error_text host stderr) Plain])"
  using assms by (simp add: ping_report_def edit_text_def bot_call_then_return)

lemma ping_report_stats:
  assumes "findall_stat (unicode_digit env) stdout = stats" and "stats \<noteq> []"
  shows "ping_report env host msg stdout [] tr =
           (let ev = EditText msg
                       (ping_result_text host
                          (if 3 \<le> length stats then stats ! (length stats - 3) else str ''N/A'')
                          (if 2 \<le> length stats then stats ! (length stats - 2) else str ''N/A'')
                          (stats ! (length stats - 1)))
                       MarkdownV2
            in (case bot env tr ev of None \<Rightarrow> Inr () | Some e \<Rightarrow> Inl e, tr @ [ev]))"
  using assms
  by (simp add: ping_report_def edit_text_def ping_stats_run lift_io_def bind_io_def
      bot_call_def return_io_def Let_def split: option.splits)

lemma ping_report_unparsed:
  assumes "findall_stat (unicode_digit env) stdout = []"
  shows "ping_report env host msg stdout [] tr =
           (case bot env tr (EditText msg (ping_unparsed_text host stdout) MarkdownV2) of
              None \<Rightarrow> Inr () | Some e \<Rightarrow> Inl e,
            tr @ [EditText msg (ping_unparsed_text host stdout) MarkdownV2])"
  using assms by (simp add: ping_report_def edit_text_def bot_call_then_return)

lemma ping_command_run:
  assumes "bot env tr (ReplyText (pinging_text host)) = None"
    and "popen_communicate env (ping_argv env host) = Inr (stdout, stderr)"
    and "ping_report env host (length tr) stdout stderr
           (tr @ [ReplyText (pinging_text host), Popen (ping_argv env host)])
         = (case bot env (tr @ [ReplyText (pinging_text host), Popen (ping_argv env host)]) ev of
              None \<Rightarrow> Inr () | Some e \<Rightarrow> Inl e,
            (tr @ [ReplyText (pinging_text host), Popen (ping_argv env host)]) @ [ev])"
  shows "snd (ping_command env upd (host # rest) tr) =
           tr @ [ReplyText (pinging_text host), Popen (ping_argv env host), ev]
           @ (case bot env (tr @ [ReplyText (pinging_text host), Popen (ping_argv env host)]) ev of
                None \<Rightarrow> []
              | Some e \<Rightarrow> [LogError (ping_log_text e), ReplyText (ping_failed_text host)])"
proof -
  let ?tr2 = "tr @ [ReplyText (pinging_text host), Popen (ping_argv env host)]"
  have "ping_body env host tr = ping_report env host (length tr) stdout stderr ?tr2"
    using assms(1,2) by (rule ping_body_run)
  with assms(3) have "ping_body env host tr =
      (case bot env ?tr2 ev of None \<Rightarrow> Inr () | Some e \<Rightarrow> Inl e, ?tr2 @ [ev])"
    by simp
  then show ?thesis
    by (simp add: ping_command_def try_except_def ping_except_run split: option.splits)
qed

section \<open>Parsed statistics\<close>

text \<open>
  C3. When the placeholder has been sent, the subprocess has written nothing to standard
  error and the pattern matches at least three times in its standard output, the
  handler takes the third-from-last match as min, the second-from-last as avg and the
  last as max, in the order of appearance, and edits the placeholder with the result
  text built from them. With exactly the matches \<open>1.2\<close>, \<open>3.4\<close>, \<open>5.6\<close> this gives
  min \<open>1.2\<close>, avg \<open>3.4\<close>, max \<open>5.6\<close> (evaluated in the witness). Should the edit raise,
  the \<open>except\<close> block logs and replies.
\<close>

theorem ping_three_matches:
  assumes "bot env tr (ReplyText (pinging_text host)) = None"
    and "popen_communicate env (ping_argv env host) = Inr (stdout, [])"
    and "findall_stat (unicode_digit env) stdout = stats"
    and "3 \<le> length stats"
  shows "ping_stats stats
           = Inr (stats ! (length stats - 3), stats ! (length stats - 2), stats ! (length stats - 1))
       \<and> (let sent = [ReplyText (pinging_text host), Popen (ping_argv env host)];
               answer = EditText (length tr)
                          (ping_result_text host (stats ! (length stats - 3))
                             (stats ! (length stats - 2)) (stats ! (length stats - 1)))
                          MarkdownV2
           in snd (ping_command env upd (host # rest) tr) =
                tr @ sent @ [answer]
                @ (case bot env (tr @ sent) answer of
                     None \<Rightarrow> []
                   | Some e \<Rightarrow> [LogError (ping_log_text e), ReplyText (ping_failed_text host)]))"
proof -
  from assms(4) have ne: "stats \<noteq> []" by auto
  have "ping_stats stats
          = Inr (stats ! (length stats - 3), stats ! (length stats - 2), stats ! (length stats - 1))"
    using assms(4) by (simp add: ping_stats_run [OF ne])
  moreover have "ping_report env host (length tr) stdout []
           (tr @ [ReplyText (pinging_text host), Popen (ping_argv env host)])
         = (let ev = EditText (length tr)
                          (ping_result_text host (stats ! (length stats - 3))
                             (stats ! (length stats - 2)) (stats ! (length stats - 1)))
                          MarkdownV2 in
        (case bot env (tr @ [ReplyText (pinging_text host), Popen (ping_argv env host)]) ev of
              None \<Rightarrow> Inr () | Some e \<Rightarrow> Inl e,
            (tr @ [ReplyText (pinging_text host), Popen (ping_argv env host)]) @ [ev]))"
    using ping_report_stats [OF assms(3) ne] assms(4) by simp
  ultimately show ?thesis
    using ping_command_run [OF assms(1,2)] by (simp add: Let_def)
qed

text \<open>The standard output \<open>1.2 ms 3.4 ms 5.6 ms\<close> on a Linux host.\<close>

theorem ping_three_matches_witness:
  "(let env = world (str ''Linux'') (Inr (str ''1.2 ms 3.4 ms 5.6 ms'', [])) accept_all;
        host = str ''example.com''
    in bot env [] (ReplyText (pinging_text host)) = None
     \<and> popen_communicate env (ping_argv env host) = Inr (str ''1.2 ms 3.4 ms 5.6 ms'', [])
     \<and> findall_stat (unicode_digit env) (str ''1.2 ms 3.4 ms 5.6 ms'')
         = [str ''1.2'', str ''3.4'', str ''5.6'']
     \<and> ping_stats [str ''1.2'', str ''3.4'', str ''5.6'']
         = Inr (str ''1.2'', str ''3.4'', str ''5.6'')
     \<and> snd (ping_command env alice [host] [])
         = [ReplyText (pinging_text host), Popen (ping_argv env host),
            EditText 0 (ping_result_text host (str ''1.2'') (str ''3.4'') (str ''5.6''))
              MarkdownV2])"
proof -
  define env where "env = world (str ''Linux'') (Inr (str ''1.2 ms 3.4 ms 5.6 ms'', [])) accept_all"
  define host where "host = str ''example.com''"
  have h1: "bot env [] (ReplyText (pinging_text host)) = None"
    by (simp add: env_def world_def accept_all_def)
  have h2: "popen_communicate env (ping_argv env host) = Inr (str ''1.2 ms 3.4 ms 5.6 ms'', [])"
    by (simp add: env_def world_def)
  have h3: "findall_stat (unicode_digit env) (str ''1.2 ms 3.4 ms 5.6 ms'')
              = [str ''1.2'', str ''3.4'', str ''5.6'']"
    by (simp add: env_def world_def str_def rx_stat_match_def rx_stat_ends_def rx_plus_def
        rx_opt_def rx_lit_def ascii_digit_def)
  have h4: "3 \<le> length [str ''1.2'', str ''3.4'', str ''5.6'']" by simp
  have b: "bot env tr ev = None" for tr ev
    by (simp add: env_def world_def accept_all_def)
  from ping_three_matches [OF h1 h2 h3 h4, of alice "[]"] h1 h2 h3
  show ?thesis
    unfolding env_def [symmetric] host_def [symmetric] Let_def
    by (simp add: b)
qed


text \<open>
  C4. With fewer than three matches (and at least one, so that the statistics are built
  at all) min is \<open>N/A\<close>; with fewer than two, avg is \<open>N/A\<close> as well and max is the single
  match. The placeholder is edited with the result text built from these values.
\<close>

theorem ping_few_matches:
  assumes "bot env tr (ReplyText (pinging_text host)) = None"
    and "popen_communicate env (ping_argv env host) = Inr (stdout, [])"
    and "findall_stat (unicode_digit env) stdout = stats"
    and "stats \<noteq> []"
    and "length stats < 3"
  shows "ping_stats stats
           = Inr (str ''N/A'', if length stats < 2 then str ''N/A'' else stats ! 0, last stats)
       \<and> (\<forall>m. stats = [m] \<longrightarrow> ping_stats stats = Inr (str ''N/A'', str ''N/A'', m))
       \<and> (let sent = [ReplyText (pinging_text host), Popen (ping_argv env host)];
               answer = EditText (length tr)
                          (ping_result_text host (str ''N/A'')
                             (if length stats < 2 then str ''N/A'' else stats ! 0) (last stats))
                          MarkdownV2
           in snd (ping_command env upd (host # rest) tr) =
                tr @ sent @ [answer]
                @ (case bot env (tr @ sent) answer of
                     None \<Rightarrow> []
                   | Some e \<Rightarrow> [LogError (ping_log_text e), ReplyText (ping_failed_text host)]))"
proof -
  from assms(4) have "0 < length stats" by simp
  with assms(5) have "length stats = 1 \<or> length stats = 2"
    by arith
  then have shape: "(\<exists>a. stats = [a]) \<or> (\<exists>a b. stats = [a, b])"
    by (auto simp: length_Suc_conv numeral_2_eq_2)
  have st: "ping_stats stats
         = Inr (str ''N/A'', if length stats < 2 then str ''N/A'' else stats ! 0, last stats)"
    using shape by (auto simp: ping_stats_run)
  have one: "\<forall>m. stats = [m] \<longrightarrow> ping_stats stats = Inr (str ''N/A'', str ''N/A'', m)"
    using st by auto
  have "ping_report env host (length tr) stdout []
           (tr @ [ReplyText (pinging_text host), Popen (ping_argv env host)])
         = (let ev = EditText (length tr)
                          (ping_result_text host (str ''N/A'')
                             (if length stats < 2 then str ''N/A'' else stats ! 0) (last stats))
                          MarkdownV2 in
        (case bot env (tr @ [ReplyText (pinging_text host), Popen (ping_argv env host)]) ev of
              None \<Rightarrow> Inr () | Some e \<Rightarrow> Inl e,
            (tr @ [ReplyText (pinging_text host), Popen (ping_argv env host)]) @ [ev]))"
    using ping_report_stats [OF assms(3,4)] shape by (auto simp: Let_def)
  then show ?thesis
    using st one ping_command_run [OF assms(1,2)] by (simp add: Let_def)
qed

text \<open>The standard output \<open>time=7.25 ms\<close>, with its single match.\<close>

theorem ping_few_matches_witness:
  "(let env = world (str ''Linux'') (Inr (str ''time=7.25 ms'', [])) accept_all;
        host = str ''example.com''
    in bot env [] (ReplyText (pinging_text host)) = None
     \<and> popen_communicate env (ping_argv env host) = Inr (str ''time=7.25 ms'', [])
     \<and> findall_stat (unicode_digit env) (str ''time=7.25 ms'') = [str ''7.25'']
     \<and> ping_stats [str ''7.25''] = Inr (str ''N/A'', str ''N/A'', str ''7.25'')
     \<and> snd (ping_command env alice [host] [])
         = [ReplyText (pinging_text host), Popen (ping_argv env host),
            EditText 0 (ping_result_text host (str ''N/A'') (str ''N/A'') (str ''7.25''))
              MarkdownV2])"
proof -
  define env where "env = world (str ''Linux'') (Inr (str ''time=7.25 ms'', [])) accept_all"
  define host where "host = str ''example.com''"
  have h1: "bot env [] (ReplyText (pinging_text host)) = None"
    by (simp add: env_def world_def accept_all_def)
  have h2: "popen_communicate env (ping_argv env host) = Inr (str ''time=7.25 ms'', [])"
    by (simp add: env_def world_def)
  have h3: "findall_stat (unicode_digit env) (str ''time=7.25 ms'') = [str ''7.25'']"
    by (simp add: env_def world_def str_def rx_stat_match_def rx_stat_ends_def rx_plus_def
        rx_opt_def rx_lit_def ascii_digit_def)
  have h4: "[str ''7.25''] \<noteq> []" by simp
  have h5: "length [str ''7.25''] < 3" by simp
  have b: "bot env tr ev = None" for tr ev
    by (simp add: env_def world_def accept_all_def)
  from ping_few_matches [OF h1 h2 h3 h4 h5, of alice "[]"] h1 h2 h3
  show ?thesis
    unfolding env_def [symmetric] host_def [symmetric] Let_def
    by (simp add: b)
qed

section \<open>Output that cannot be parsed\<close>

lemma ping_result_not_unparsed:
  "ping_result_text h a b c \<noteq> ping_unparsed_text host stdout"
  by (simp add: ping_result_text_def ping_unparsed_text_def)

text \<open>
  C5. When the pattern does not match anywhere in the standard output (and standard
  error is empty), the handler edits the placeholder with the text that embeds the
  standard output as it is, between two backquotes, and no event of the run is an edit
  with a min/avg/max result text.
\<close>

theorem ping_no_match:
  assumes "bot env tr (ReplyText (pinging_text host)) = None"
    and "popen_communicate env (ping_argv env host) = Inr (stdout, [])"
    and "findall_stat (unicode_digit env) stdout = []"
  shows "(let sent = [ReplyText (pinging_text host), Popen (ping_argv env host)];
              answer = EditText (length tr)
                         ([0x26a0, 0xfe0f] @ str '' Could not parse ping results for '' @ host
                          @ str '':'' @ [newline, newline] @ str ''`'' @ stdout @ str ''`'')
                         MarkdownV2
          in snd (ping_command env upd (host # rest) tr) =
               tr @ sent @ [answer]
               @ (case bot env (tr @ sent) answer of
                    None \<Rightarrow> []
                  | Some e \<Rightarrow> [LogError (ping_log_text e), ReplyText (ping_failed_text host)]))
       \<and> EditText m (ping_result_text h a b c) p
           \<notin> set (drop (length tr) (snd (ping_command env upd (host # rest) tr)))"
proof -
  let ?sent = "[ReplyText (pinging_text host), Popen (ping_argv env host)]"
  let ?answer = "EditText (length tr) (ping_unparsed_text host stdout) MarkdownV2"
  have tr: "snd (ping_command env upd (host # rest) tr) =
      tr @ ?sent @ [?answer]
      @ (case bot env (tr @ ?sent) ?answer of
           None \<Rightarrow> []
         | Some e \<Rightarrow> [LogError (ping_log_text e), ReplyText (ping_failed_text host)])"
    using ping_command_run [OF assms(1,2), of ?answer upd rest] ping_report_unparsed [OF assms(3)]
    by simp
  have "EditText m (ping_result_text h a b c) p
           \<notin> set (drop (length tr) (snd (ping_command env upd (host # rest) tr)))"
    unfolding tr by (simp add: ping_result_not_unparsed split: option.splits)
  with tr show ?thesis
    by (simp add: Let_def ping_unparsed_text_def)
qed


text \<open>
  A reply line of the Windows ping utility, which prints \<open>12ms\<close> without a space, so the
  pattern does not match.
\<close>

theorem ping_no_match_witness:
  "(let stdout = str ''Reply from 1.2.3.4: bytes=32 time=12ms TTL=56'';
        env = world (str ''Windows'') (Inr (stdout, [])) accept_all;
        host = str ''example.com''
    in bot env [] (ReplyText (pinging_text host)) = None
     \<and> popen_communicate env (ping_argv env host) = Inr (stdout, [])
     \<and> findall_stat (unicode_digit env) stdout = []
     \<and> snd (ping_command env alice [host] [])
         = [ReplyText (pinging_text host), Popen (ping_argv env host),
            EditText 0
              ([0x26a0, 0xfe0f] @ str '' Could not parse ping results for example.com:''
               @ [newline, newline]
               @ str ''`Reply from 1.2.3.4: bytes=32 time=12ms TTL=56`'')
              MarkdownV2])"
proof -
  define stdout where "stdout = str ''Reply from 1.2.3.4: bytes=32 time=12ms TTL=56''"
  define env where "env = world (str ''Windows'') (Inr (stdout, [])) accept_all"
  define host where "host = str ''example.com''"
  have h1: "bot env [] (ReplyText (pinging_text host)) = None"
    by (simp add: env_def world_def accept_all_def)
  have h2: "popen_communicate env (ping_argv env host) = Inr (stdout, [])"
    by (simp add: env_def world_def)
  have h3: "findall_stat (unicode_digit env) stdout = []"
    by (simp add: env_def world_def stdout_def str_def rx_stat_match_def rx_stat_ends_def
        rx_plus_def rx_opt_def rx_lit_def ascii_digit_def)
  have b: "bot env tr ev = None" for tr ev
    by (simp add: env_def world_def accept_all_def)
  have "snd (ping_command env alice [host] [])
         = [ReplyText (pinging_text host), Popen (ping_argv env host),
            EditText 0
              ([0x26a0, 0xfe0f] @ str '' Could not parse ping results for '' @ host @ str '':''
               @ [newline, newline] @ str ''`'' @ stdout @ str ''`'')
              MarkdownV2]"
    using ping_no_match [OF h1 h2 h3, of alice "[]"] by (simp add: b Let_def)
  then have "snd (ping_command env alice [host] [])
         = [ReplyText (pinging_text host), Popen (ping_argv env host),
            EditText 0
              ([0x26a0, 0xfe0f] @ str '' Could not parse ping results for example.com:''
               @ [newline, newline]
               @ str ''`Reply from 1.2.3.4: bytes=32 time=12ms TTL=56`'')
              MarkdownV2]"
    by (simp add: host_def stdout_def str_def)
  with h1 h2 h3 show ?thesis
    unfolding Let_def stdout_def [symmetric] env_def [symmetric] host_def [symmetric]
    by simp
qed

section \<open>Missing argument\<close>

text \<open>
  C6. With an empty argument list the handler makes exactly one call, the plain-text
  reply with the usage message, and returns (or passes on the exception of that call):
  no placeholder is sent and no subprocess is created.
\<close>

theorem ping_no_argument:
  "ping_command env upd [] tr
     = (case bot env tr (ReplyText usage_text) of None \<Rightarrow> Inr () | Some e \<Rightarrow> Inl e,
        tr @ [ReplyText usage_text])
   \<and> usage_text = str ''Please specify a host to ping. Example: /ping google.com''"
  by (simp add: ping_command_def reply_text_def bot_call_then_return usage_text_def)

section \<open>Output on standard error\<close>

text \<open>
  C7. When the subprocess has written to standard error, the handler edits the
  placeholder, in plain text, with the error text that contains the standard error, and
  returns at once when that edit succeeds. Whatever the standard output holds, it is not
  parsed: no other edit is made. Should the edit raise, the \<open>except\<close> block logs and
  replies.
\<close>

theorem ping_stderr:
  assumes "bot env tr (ReplyText (pinging_text host)) = None"
    and "popen_communicate env (ping_argv env host) = Inr (stdout, stderr)"
    and "stderr \<noteq> []"
  shows "(let sent = [ReplyText (pinging_text host), Popen (ping_argv env host)];
              answer = EditText (length tr)
                         ([0x274c] @ str '' Error pinging '' @ host @ str '':'' @ [newline] @ stderr)
                         Plain
          in snd (ping_command env upd (host # rest) tr) =
               tr @ sent @ [answer]
               @ (case bot env (tr @ sent) answer of
                    None \<Rightarrow> []
                  | Some e \<Rightarrow> [LogError (ping_log_text e), ReplyText (ping_failed_text host)])
           \<and> (bot env (tr @ sent) answer = None
                \<longrightarrow> ping_command env upd (host # rest) tr = (Inr (), tr @ sent @ [answer])))"
proof -
  let ?sent = "[ReplyText (pinging_text host), Popen (ping_argv env host)]"
  let ?answer = "EditText (length tr) (ping_error_text host stderr) Plain"
  have rep: "ping_report env host (length tr) stdout stderr (tr @ ?sent)
      = (case bot env (tr @ ?sent) ?answer of None \<Rightarrow> Inr () | Some e \<Rightarrow> Inl e,
         (tr @ ?sent) @ [?answer])"
    using assms(3) by (rule ping_report_stderr)
  have tr: "snd (ping_command env upd (host # rest) tr) =
      tr @ ?sent @ [?answer]
      @ (case bot env (tr @ ?sent) ?answer of
           None \<Rightarrow> []
         | Some e \<Rightarrow> [LogError (ping_log_text e), ReplyText (ping_failed_text host)])"
    using ping_command_run [OF assms(1,2) rep, of upd rest] by simp
  have ok: "ping_command env upd (host # rest) tr = (Inr (), tr @ ?sent @ [?answer])"
    if "bot env (tr @ ?sent) ?answer = None"
    using that rep ping_body_run [OF assms(1,2)]
    by (simp add: ping_command_def try_except_def)
  from tr ok show ?thesis
    by (simp add: Let_def ping_error_text_def)
qed

text \<open>
  An unknown host on Linux. The standard output of this world holds three matches, and
  yet no statistics are sent.
\<close>

theorem ping_stderr_witness:
  "(let stderr = str ''ping: no.such.host: Name or service not known'' @ [newline];
        env = world (str ''Linux'') (Inr (str ''1.2 ms 3.4 ms 5.6 ms'', stderr)) accept_all;
        host = str ''no.such.host''
    in bot env [] (ReplyText (pinging_text host)) = None
     \<and> popen_communicate env (ping_argv env host) = Inr (str ''1.2 ms 3.4 ms 5.6 ms'', stderr)
     \<and> stderr \<noteq> []
     \<and> ping_command env alice [host] []
         = (Inr (),
            [ReplyText (pinging_text host), Popen (ping_argv env host),
             EditText 0
               ([0x274c] @ str '' Error pinging no.such.host:'' @ [newline]
                @ str ''ping: no.such.host: Name or service not known'' @ [newline])
               Plain]))"
proof -
  define stderr where "stderr = str ''ping: no.such.host: Name or service not known'' @ [newline]"
  define env where
    "env = world (str ''Linux'') (Inr (str ''1.2 ms 3.4 ms 5.6 ms'', stderr)) accept_all"
  define host where "host = str ''no.such.host''"
  have h1: "bot env [] (ReplyText (pinging_text host)) = None"
    by (simp add: env_def world_def accept_all_def)
  have h2: "popen_communicate env (ping_argv env host) = Inr (str ''1.2 ms 3.4 ms 5.6 ms'', stderr)"
    by (simp add: env_def world_def)
  have h3: "stderr \<noteq> []"
    by (simp add: stderr_def)
  have b: "bot env tr ev = None" for tr ev
    by (simp add: env_def world_def accept_all_def)
  have "ping_command env alice [host] []
         = (Inr (),
            [ReplyText (pinging_text host), Popen (ping_argv env host),
             EditText 0
               ([0x274c] @ str '' Error pinging '' @ host @ str '':'' @ [newline] @ stderr)
               Plain])"
    using ping_stderr [OF h1 h2 h3, of alice "[]"] by (simp add: b Let_def)
  then have "ping_command env alice [host] []
         = (Inr (),
            [ReplyText (pinging_text host), Popen (ping_argv env host),
             EditText 0
               ([0x274c] @ str '' Error pinging no.such.host:'' @ [newline]
                @ str ''ping: no.such.host: Name or service not known'' @ [newline])
               Plain])"
    by (simp add: host_def stderr_def str_def)
  with h1 h2 h3 show ?thesis
    unfolding Let_def stderr_def [symmetric] env_def [symmetric] host_def [symmetric]
    by simp
qed

section \<open>The invocation of the ping utility\<close>

lemma ping_report_one_edit:
  "\<exists>t p. ping_report env host msg stdout stderr tr =
     (case bot env tr (EditText msg t p) of None \<Rightarrow> Inr () | Some e \<Rightarrow> Inl e,
      tr @ [EditText msg t p])"
proof (cases "stderr = []")
  case False
  then show ?thesis using ping_report_stderr by blast
next
  case True
  show ?thesis
  proof (cases "findall_stat (unicode_digit env) stdout = []")
    case True
    with \<open>stderr = []\<close> show ?thesis using ping_report_unparsed by blast
  next
    case False
    from ping_report_stats [OF refl False, of host msg tr] \<open>stderr = []\<close>
    show ?thesis unfolding Let_def by blast
  qed
qed

lemma ping_command_placeholder_raises:
  assumes "bot env tr (ReplyText (pinging_text host)) = Some e"
  shows "snd (ping_command env upd (host # rest) tr) =
           tr @ [ReplyText (pinging_text host), LogError (ping_log_text e),
                 ReplyText (ping_failed_text host)]"
  using assms
  by (simp add: ping_command_def try_except_def ping_body_def reply_text_def bind_io_def
      bot_call_def ping_except_run)

lemma ping_command_popen_raises:
  assumes "bot env tr (ReplyText (pinging_text host)) = None"
    and "popen_communicate env (ping_argv env host) = Inl e"
  shows "snd (ping_command env upd (host # rest) tr) =
           tr @ [ReplyText (pinging_text host), Popen (ping_argv env host),
                 LogError (ping_log_text e), ReplyText (ping_failed_text host)]"
  using assms
  by (simp add: ping_command_def try_except_def ping_body_def reply_text_def bind_io_def
      bot_call_def popen_def ping_except_run)

lemma ping_command_popens:
  "filter is_popen (drop (length tr) (snd (ping_command env upd (host # rest) tr))) =
     (if bot env tr (ReplyText (pinging_text host)) = None then [Popen (ping_argv env host)]
      else [])"
proof (cases "bot env tr (ReplyText (pinging_text host))")
  case (Some e)
  then show ?thesis by (simp add: ping_command_placeholder_raises)
next
  case None
  show ?thesis
  proof (cases "popen_communicate env (ping_argv env host)")
    case (Inl e)
    with None show ?thesis by (simp add: ping_command_popen_raises)
  next
    case (Inr out)
    obtain stdout stderr where out: "out = (stdout, stderr)" by (cases out)
    obtain t p where
      "ping_report env host (length tr) stdout stderr
         (tr @ [ReplyText (pinging_text host), Popen (ping_argv env host)])
       = (case bot env (tr @ [ReplyText (pinging_text host), Popen (ping_argv env host)])
                 (EditText (length tr) t p) of
            None \<Rightarrow> Inr () | Some e \<Rightarrow> Inl e,
          (tr @ [ReplyText (pinging_text host), Popen (ping_argv env host)])
          @ [EditText (length tr) t p])"
      using ping_report_one_edit by blast
    from ping_command_run [OF None Inr [unfolded out] this, of upd rest] None
    show ?thesis by (simp split: option.splits)
  qed
qed

text \<open>
  C8. The only subprocess the ping handler runs for a host is
  \<open>ping <flag> 4 <host>\<close>: four probes against the given host, where the flag is \<open>-n\<close> when
  the lower-cased platform name is \<open>windows\<close> and \<open>-c\<close> on every other platform. It runs it
  exactly once, as soon as the placeholder has been sent.
\<close>

theorem ping_invocation:
  "(let argv = [str ''ping'',
                if lower (platform_system env) = str ''windows'' then str ''-n'' else str ''-c'',
                str ''4'', host];
        new = drop (length tr) (snd (ping_command env upd (host # rest) tr))
    in set (filter is_popen new) \<subseteq> {Popen argv}
     \<and> (bot env tr (ReplyText (pinging_text host)) = None \<longrightarrow> filter is_popen new = [Popen argv]))"
  unfolding Let_def ping_command_popens
  by (auto simp: ping_argv_def)

text \<open>The same request on Linux and on Windows.\<close>

theorem ping_invocation_witness:
  "(let host = str ''example.com'';
        linux = world (str ''Linux'') (Inr (str ''time=7.25 ms'', [])) accept_all;
        windows = world (str ''Windows'') (Inr (str ''time=7ms'', [])) accept_all
    in bot linux [] (ReplyText (pinging_text host)) = None
     \<and> filter is_popen (snd (ping_command linux alice [host] []))
         = [Popen [str ''ping'', str ''-c'', str ''4'', str ''example.com'']]
     \<and> bot windows [] (ReplyText (pinging_text host)) = None
     \<and> filter is_popen (snd (ping_command windows alice [host] []))
         = [Popen [str ''ping'', str ''-n'', str ''4'', str ''example.com'']])"
proof -
  define host where "host = str ''example.com''"
  define linux where "linux = world (str ''Linux'') (Inr (str ''time=7.25 ms'', [])) accept_all"
  define windows where "windows = world (str ''Windows'') (Inr (str ''time=7ms'', [])) accept_all"
  have l1: "bot linux [] (ReplyText (pinging_text host)) = None"
    by (simp add: linux_def world_def accept_all_def)
  have w1: "bot windows [] (ReplyText (pinging_text host)) = None"
    by (simp add: windows_def world_def accept_all_def)
  have l2: "lower (platform_system linux) \<noteq> str ''windows''"
    by (simp add: linux_def world_def lower_def str_def)
  have w2: "lower (platform_system windows) = str ''windows''"
    by (simp add: windows_def world_def lower_def str_def)
  have "filter is_popen (snd (ping_command linux alice [host] []))
         = [Popen [str ''ping'', str ''-c'', str ''4'', host]]"
    using ping_invocation [of linux host "[]" alice "[]"] l1 l2 by (simp add: Let_def)
  moreover have "filter is_popen (snd (ping_command windows alice [host] []))
         = [Popen [str ''ping'', str ''-n'', str ''4'', host]]"
    using ping_invocation [of windows host "[]" alice "[]"] w1 w2 by (simp add: Let_def)
  ultimately show ?thesis
    using l1 w1
    unfolding Let_def host_def [symmetric] linux_def [symmetric] windows_def [symmetric]
    by simp
qed


section \<open>Errors\<close>

lemma log_then_reply:
  "bind_io (logger_error l) (\<lambda>_. bind_io (reply_text env t) (\<lambda>_. return_io ())) tr =
     (case bot env (tr @ [LogError l]) (ReplyText t) of None \<Rightarrow> Inr () | Some e' \<Rightarrow> Inl e',
      tr @ [LogError l, ReplyText t])"
  by (simp add: logger_error_def reply_text_def bind_io_def bot_call_def return_io_def
      split: option.splits)

lemma start_raised:
  "start_body env upd tr = (Inl e, tr') \<Longrightarrow>
   start env upd tr =
     (case bot env (tr' @ [LogError (str ''Error in start command: '' @ exn_str e)])
             (ReplyText (str ''An error occurred. Please try again.'')) of
        None \<Rightarrow> Inr () | Some e' \<Rightarrow> Inl e',
      tr' @ [LogError (str ''Error in start command: '' @ exn_str e),
             ReplyText (str ''An error occurred. Please try again.'')])"
  by (simp add: start_def try_except_def start_except_def log_then_reply)

lemma help_raised:
  "help_body env tr = (Inl e, tr') \<Longrightarrow>
   help_command env upd tr =
     (case bot env (tr' @ [LogError (str ''Error in help command: '' @ exn_str e)])
             (ReplyText (str ''An error occurred. Please try again.'')) of
        None \<Rightarrow> Inr () | Some e' \<Rightarrow> Inl e',
      tr' @ [LogError (str ''Error in help command: '' @ exn_str e),
             ReplyText (str ''An error occurred. Please try again.'')])"
  by (simp add: help_command_def try_except_def help_except_def log_then_reply)

lemma speedtest_raised:
  "speedtest_body env tr = (Inl e, tr') \<Longrightarrow>
   speedtest_command env upd tr =
     (case bot env (tr' @ [LogError (str ''Error in speedtest command: '' @ exn_str e)])
             (ReplyText ([0x274c] @ str '' Failed to run speed test. Please try again later.'')) of
        None \<Rightarrow> Inr () | Some e' \<Rightarrow> Inl e',
      tr' @ [LogError (str ''Error in speedtest command: '' @ exn_str e),
             ReplyText ([0x274c] @ str '' Failed to run speed test. Please try again later.'')])"
  by (simp add: speedtest_command_def try_except_def speedtest_except_def log_then_reply)

lemma advanced_raised:
  "advanced_body env tr = (Inl e, tr') \<Longrightarrow>
   speedtest_advanced env upd tr =
     (case bot env (tr' @ [LogError (str ''Error in speedtest_advanced command: '' @ exn_str e)])
             (ReplyText ([0x274c]
                @ str '' Failed to run advanced speed test. Please try again later.'')) of
        None \<Rightarrow> Inr () | Some e' \<Rightarrow> Inl e',
      tr' @ [LogError (str ''Error in speedtest_advanced command: '' @ exn_str e),
             ReplyText ([0x274c]
                @ str '' Failed to run advanced speed test. Please try again later.'')])"
  by (simp add: speedtest_advanced_def try_except_def advanced_except_def log_then_reply)

lemma ping_raised:
  "ping_body env host tr = (Inl e, tr') \<Longrightarrow>
   ping_command env upd (host # rest) tr =
     (case bot env (tr' @ [LogError (str ''Error in ping command: '' @ exn_str e)])
             (ReplyText ([0x274c] @ str '' Failed to ping '' @ host @ str ''. Please try again.'')) of
        None \<Rightarrow> Inr () | Some e' \<Rightarrow> Inl e',
      tr' @ [LogError (str ''Error in ping command: '' @ exn_str e),
             ReplyText ([0x274c] @ str '' Failed to ping '' @ host @ str ''. Please try again.'')])"
  by (simp add: ping_command_def try_except_def ping_except_run ping_log_text_def
      ping_failed_text_def)

lemma error_handler_run:
  "error_handler env update err tr =
     (case update of
        None \<Rightarrow>
          (Inl (Exn ([quote] @ str ''NoneType'' @ [quote] @ str '' object has no attribute ''
                     @ [quote] @ str ''effective_message'' @ [quote])),
           tr @ [LogError (error_log_text None err)])
      | Some upd \<Rightarrow>
          if effective_message upd then
            (case bot env (tr @ [LogError (error_log_text (Some upd) err)])
                    (ReplyText error_reply_text) of
               None \<Rightarrow> Inr () | Some e' \<Rightarrow> Inl e',
             tr @ [LogError (error_log_text (Some upd) err), ReplyText error_reply_text])
          else (Inr (), tr @ [LogError (error_log_text (Some upd) err)]))"
  by (simp add: error_handler_def logger_error_def reply_text_def bind_io_def bot_call_def
      return_io_def raise_io_def split: option.splits)

lemma process_update_raised:
  assumes "handler_for name = Some handler" and "effective_message upd"
    and "handler env upd args tr = (Inl e, tr')"
  shows "process_update env upd name args tr =
           (Idle, tr' @ [LogError (error_log_text (Some upd) e), ReplyText error_reply_text])"
  using assms by (simp add: process_update_def error_handler_run)

lemma process_update_returned:
  assumes "handler_for name = Some handler"
    and "handler env upd args tr = (Inr (), tr')"
  shows "process_update env upd name args tr = (Idle, tr')"
  using assms by (simp add: process_update_def)

lemma process_update_idle: "fst (process_update env upd name args tr) = Idle"
  by (simp add: process_update_def split: option.splits prod.splits sum.splits)

text \<open>
  C9, as the code has it. An error raised in the \<open>try\<close> block of a handler is handled by
  its \<open>except\<close> block, which writes exactly one log record and then makes exactly one
  plain-text reply call to the chat; the handler returns normally when the API accepts
  that reply. An error that leaves a handler, raised outside a \<open>try\<close> block or by the
  reply call of an \<open>except\<close> block, is passed by the dispatcher to \<open>error_handler\<close>, which
  writes exactly one log record and then makes exactly one reply call to the chat, and
  returns normally when the API accepts it. A handler that returns normally adds
  nothing. Whatever the outcome, the dispatcher is idle again after the command: no
  failure of a command ends the bot.
\<close>

theorem error_paths:

  "(\<forall>e tr'. start_body env upd tr = (Inl e, tr') \<longrightarrow>
      start env upd tr =
        (case bot env (tr' @ [LogError (str ''Error in start command: '' @ exn_str e)])
                (ReplyText (str ''An error occurred. Please try again.'')) of
           None \<Rightarrow> Inr () | Some e' \<Rightarrow> Inl e',
         tr' @ [LogError (str ''Error in start command: '' @ exn_str e),
                ReplyText (str ''An error occurred. Please try again.'')]))
 \<and> (\<forall>e tr'. help_body env tr = (Inl e, tr') \<longrightarrow>
      help_command env upd tr =
        (case bot env (tr' @ [LogError (str ''Error in help command: '' @ exn_str e)])
                (ReplyText (str ''An error occurred. Please try again.'')) of
           None \<Rightarrow> Inr () | Some e' \<Rightarrow> Inl e',
         tr' @ [LogError (str ''Error in help command: '' @ exn_str e),
                ReplyText (str ''An error occurred. Please try again.'')]))
 \<and> (\<forall>e tr'. speedtest_body env tr = (Inl e, tr') \<longrightarrow>
      speedtest_command env upd tr =
        (case bot env (tr' @ [LogError (str ''Error in speedtest command: '' @ exn_str e)])
                (ReplyText ([0x274c]
                   @ str '' Failed to run speed test. Please try again later.'')) of
           None \<Rightarrow> Inr () | Some e' \<Rightarrow> Inl e',
         tr' @ [LogError (str ''Error in speedtest command: '' @ exn_str e),
                ReplyText ([0x274c]
                   @ str '' Failed to run speed test. Please try again later.'')]))
 \<and> (\<forall>e tr'. advanced_body env tr = (Inl e, tr') \<longrightarrow>
      speedtest_advanced env upd tr =
        (case bot env
                (tr' @ [LogError (str ''Error in speedtest_advanced command: '' @ exn_str e)])
                (ReplyText ([0x274c]
                   @ str '' Failed to run advanced speed test. Please try again later.'')) of
           None \<Rightarrow> Inr () | Some e' \<Rightarrow> Inl e',
         tr' @ [LogError (str ''Error in speedtest_advanced command: '' @ exn_str e),
                ReplyText ([0x274c]
                   @ str '' Failed to run advanced speed test. Please try again later.'')]))
 \<and> (\<forall>e tr'. ping_body env host tr = (Inl e, tr') \<longrightarrow>
      ping_command env upd (host # rest) tr =
        (case bot env (tr' @ [LogError (str ''Error in ping command: '' @ exn_str e)])
                (ReplyText ([0x274c] @ str '' Failed to ping '' @ host
                   @ str ''. Please try again.'')) of
           None \<Rightarrow> Inr () | Some e' \<Rightarrow> Inl e',
         tr' @ [LogError (str ''Error in ping command: '' @ exn_str e),
                ReplyText ([0x274c] @ str '' Failed to ping '' @ host
                   @ str ''. Please try again.'')]))
 \<and> (\<forall>handler e tr'.
       handler_for name = Some handler \<and> effective_message upd
       \<and> handler env upd args tr = (Inl e, tr') \<longrightarrow>
       error_handler env (Some upd) e tr' =
         (case bot env (tr' @ [LogError (error_log_text (Some upd) e)])
                 (ReplyText error_reply_text) of
            None \<Rightarrow> Inr () | Some e' \<Rightarrow> Inl e',
          tr' @ [LogError (error_log_text (Some upd) e), ReplyText error_reply_text])
       \<and> process_update env upd name args tr =
           (Idle, tr' @ [LogError (error_log_text (Some upd) e), ReplyText error_reply_text]))
 \<and> (\<forall>handler tr'.
       handler_for name = Some handler \<and> handler env upd args tr = (Inr (), tr') \<longrightarrow>
       process_update env upd name args tr = (Idle, tr'))
 \<and> fst (process_update env upd name args tr) = Idle"
proof (intro conjI allI impI)
  show "fst (process_update env upd name args tr) = Idle"
    by (rule process_update_idle)
next
  fix handler tr'
  assume "handler_for name = Some handler \<and> handler env upd args tr = (Inr (), tr')"
  then show "process_update env upd name args tr = (Idle, tr')"
    by (simp add: process_update_returned)
next
  fix handler e tr'
  assume h: "handler_for name = Some handler \<and> effective_message upd
       \<and> handler env upd args tr = (Inl e, tr')"
  then show "error_handler env (Some upd) e tr' =
         (case bot env (tr' @ [LogError (error_log_text (Some upd) e)])
                 (ReplyText error_reply_text) of
            None \<Rightarrow> Inr () | Some e' \<Rightarrow> Inl e',
          tr' @ [LogError (error_log_text (Some upd) e), ReplyText error_reply_text])"
    by (simp add: error_handler_run)
  from h show "process_update env upd name args tr =
           (Idle, tr' @ [LogError (error_log_text (Some upd) e), ReplyText error_reply_text])"
    by (simp add: process_update_raised)
qed (erule start_raised help_raised speedtest_raised advanced_raised ping_raised)+

text \<open>
  C9 says that every error raised inside a handler ends with exactly one reply in the
  chat and exactly one log record. It does not when the API refuses the replies as well:
  \<open>/speedtest\<close> while the connection to Telegram is down raises in the \<open>try\<close> block (the
  placeholder is refused), the \<open>except\<close> block logs and its reply is refused, so the
  error leaves the handler; \<open>error_handler\<close> logs a second time, and its reply is refused
  too, so that an exception leaves \<open>error_handler\<close> itself. The command has written two
  log records and no reply has reached the chat.
\<close>

theorem speedtest_while_api_is_down:
  "(let w = (world (str ''Linux'') (Inr ([], [])) accept_all) \<lparr> bot := refuse_all \<rparr>;
        timed_out = Exn (str ''Timed out'');
        running = ReplyText ([0x23f3] @ str '' Running speed test... This may take a minute'');
        failed = ReplyText ([0x274c] @ str '' Failed to run speed test. Please try again later.'');
        first_log = LogError (str ''Error in speedtest command: Timed out'');
        second_log = LogError (str ''Update Update(update_id=1) caused error: Timed out'')
    in handler_for (str ''speedtest'') = Some (\<lambda>env upd args. speedtest_command env upd)
     \<and> speedtest_body w [] = (Inl timed_out, [running])
     \<and> speedtest_command w alice [] = (Inl timed_out, [running, first_log, failed])
     \<and> error_handler w (Some alice) timed_out [running, first_log, failed]
         = (Inl timed_out,
            [running, first_log, failed, second_log, ReplyText error_reply_text])
     \<and> process_update w alice (str ''speedtest'') [] []
         = (Idle, [running, first_log, failed, second_log, ReplyText error_reply_text])
     \<and> (\<forall>tr ev. bot w tr ev = Some timed_out))"
proof -
  define w where "w = (world (str ''Linux'') (Inr ([], [])) accept_all) \<lparr> bot := refuse_all \<rparr>"
  define timed_out where "timed_out = Exn (str ''Timed out'')"
  define running where
    "running = ReplyText ([0x23f3] @ str '' Running speed test... This may take a minute'')"
  define failed where
    "failed = ReplyText ([0x274c] @ str '' Failed to run speed test. Please try again later.'')"
  define first_log where "first_log = LogError (str ''Error in speedtest command: Timed out'')"
  define second_log where
    "second_log = LogError (str ''Update Update(update_id=1) caused error: Timed out'')"
  have b: "bot w tr ev = Some timed_out" for tr ev
    by (simp add: w_def refuse_all_def timed_out_def)
  have t: "handler_for (str ''speedtest'') = Some (\<lambda>env upd args. speedtest_command env upd)"
    by (simp add: handler_for_def str_def)
  have body: "speedtest_body w [] = (Inl timed_out, [running])"
    by (simp add: speedtest_body_def reply_text_def bind_io_def bot_call_def b running_def)
  have cmd: "speedtest_command w alice [] = (Inl timed_out, [running, first_log, failed])"
    using speedtest_raised [OF body, of alice]
    by (simp add: b timed_out_def first_log_def failed_def str_def)
  have eh: "error_handler w (Some alice) timed_out [running, first_log, failed]
         = (Inl timed_out,
            [running, first_log, failed, second_log, ReplyText error_reply_text])"
    by (simp add: error_handler_run b alice_def error_log_text_def timed_out_def
        second_log_def str_def)
  have pu: "process_update w alice (str ''speedtest'') [] []
         = (Idle, [running, first_log, failed, second_log, ReplyText error_reply_text])"
    using cmd eh by (simp add: process_update_def t)
  from t body cmd eh pu b show ?thesis
    unfolding Let_def w_def [symmetric] timed_out_def [symmetric] running_def [symmetric]
      failed_def [symmetric] first_log_def [symmetric] second_log_def [symmetric]
    by simp
qed

text \<open>
  A world in which Telegram rejects every message with markup, the speedtest library
  cannot reach its configuration and the ping utility is missing: every handler fails
  in its \<open>try\<close> block, logs once, replies once and returns to the dispatcher. In the
  second world the first call of a command is dropped: the usage reply of \<open>/ping\<close> raises
  outside any \<open>try\<close> block, and \<open>error_handler\<close> logs once and replies once.
\<close>

theorem error_paths_witness:
  "(let w = world (str ''Linux'') (Inl (Exn (str ''ping: command not found''))) reject_markup;
        host = str ''example.com'';
        hello = ReplyMarkdownV2 (start_message (escape_markdown_v2 (str ''Alice_B.'')) 4711);
        rejected = Exn (str ''Bad Request: cannot parse entities'');
        unreachable = Exn (str ''Cannot retrieve speedtest configuration'');
        running = ReplyText ([0x23f3] @ str '' Running speed test... This may take a minute'');
        running_advanced =
          ReplyText ([0x23f3] @ str '' Running advanced speed test... This may take a minute'');
        w2 = (world (str ''Linux'') (Inr ([], [])) accept_all) \<lparr> bot := first_call_fails \<rparr>;
        timed_out = Exn (str ''Timed out'');
        global_log = LogError (str ''Update Update(update_id=1) caused error: Timed out'')
    in start_body w alice [] = (Inl rejected, [hello])
     \<and> start w alice [] =
         (Inr (), [hello,
                   LogError (str ''Error in start command: Bad Request: cannot parse entities''),
                   ReplyText (str ''An error occurred. Please try again.'')])
     \<and> help_body w [] = (Inl rejected, [ReplyMarkdownV2 help_message])
     \<and> help_command w alice [] =
         (Inr (), [ReplyMarkdownV2 help_message,
                   LogError (str ''Error in help command: Bad Request: cannot parse entities''),
                   ReplyText (str ''An error occurred. Please try again.'')])
     \<and> speedtest_body w [] = (Inl unreachable, [running, Speedtest])
     \<and> speedtest_command w alice [] =
         (Inr (), [running, Speedtest,
                   LogError (str ''Error in speedtest command: ''
                             @ str ''Cannot retrieve speedtest configuration''),
                   ReplyText ([0x274c]
                     @ str '' Failed to run speed test. Please try again later.'')])
     \<and> advanced_body w [] = (Inl unreachable, [running_advanced, Speedtest])
     \<and> speedtest_advanced w alice [] =
         (Inr (), [running_advanced, Speedtest,
                   LogError (str ''Error in speedtest_advanced command: ''
                             @ str ''Cannot retrieve speedtest configuration''),
                   ReplyText ([0x274c]
                     @ str '' Failed to run advanced speed test. Please try again later.'')])
     \<and> ping_body w host [] =
         (Inl (Exn (str ''ping: command not found'')),
          [ReplyText (pinging_text host), Popen (ping_argv w host)])
     \<and> ping_command w alice [host] [] =
         (Inr (), [ReplyText (pinging_text host), Popen (ping_argv w host),
                   LogError (str ''Error in ping command: ping: command not found''),
                   ReplyText ([0x274c] @ str '' Failed to ping example.com. Please try again.'')])
     \<and> handler_for (str ''ping'') = Some ping_command
     \<and> effective_message alice
     \<and> ping_command w2 alice [] [] = (Inl timed_out, [ReplyText usage_text])
     \<and> error_handler w2 (Some alice) timed_out [ReplyText usage_text] =
         (Inr (), [ReplyText usage_text, global_log, ReplyText error_reply_text])
     \<and> process_update w2 alice (str ''ping'') [] [] =
         (Idle, [ReplyText usage_text, global_log, ReplyText error_reply_text])
     \<and> handler_for (str ''help'') = Some (\<lambda>env upd args. help_command env upd)
     \<and> process_update w alice (str ''help'') [] [] =
         (Idle, [ReplyMarkdownV2 help_message,
                 LogError (str ''Error in help command: Bad Request: cannot parse entities''),
                 ReplyText (str ''An error occurred. Please try again.'')]))"
proof -
  define w where
    "w = world (str ''Linux'') (Inl (Exn (str ''ping: command not found''))) reject_markup"
  define host where "host = str ''example.com''"
  define hello where
    "hello = ReplyMarkdownV2 (start_message (escape_markdown_v2 (str ''Alice_B.'')) 4711)"
  define rejected where "rejected = Exn (str ''Bad Request: cannot parse entities'')"
  define unreachable where "unreachable = Exn (str ''Cannot retrieve speedtest configuration'')"
  define running where
    "running = ReplyText ([0x23f3] @ str '' Running speed test... This may take a minute'')"
  define running_advanced where
    "running_advanced =
       ReplyText ([0x23f3] @ str '' Running advanced speed test... This may take a minute'')"
  define w2 where
    "w2 = (world (str ''Linux'') (Inr ([], [])) accept_all) \<lparr> bot := first_call_fails \<rparr>"
  define timed_out where "timed_out = Exn (str ''Timed out'')"
  define global_log where
    "global_log = LogError (str ''Update Update(update_id=1) caused error: Timed out'')"
  have b: "bot w tr ev = reject_markup ev" for tr ev
    by (simp add: w_def world_def)
  have s: "speedtest_lib w = Inl unreachable"
    by (simp add: w_def world_def unreachable_def)
  have p: "popen_communicate w argv = Inl (Exn (str ''ping: command not found''))" for argv
    by (simp add: w_def world_def)
  note paths = error_paths [where env = w and upd = alice and tr = "[]" and host = host
      and rest = "[]" and name = "str ''help''" and args = "[]"]
  note paths2 = error_paths [where env = w2 and upd = alice and tr = "[]" and name = "str ''ping''"
      and args = "[]"]
  have h1: "start_body w alice [] = (Inl rejected, [hello])"
    by (simp add: start_body_def alice_def reply_markdown_v2_def bind_io_def bot_call_def b
        hello_def rejected_def)
  have c1: "start w alice [] =
         (Inr (), [hello,
                   LogError (str ''Error in start command: Bad Request: cannot parse entities''),
                   ReplyText (str ''An error occurred. Please try again.'')])"
    using paths [THEN conjunct1, rule_format, OF h1]
    by (simp add: b rejected_def str_def)
  have h2: "help_body w [] = (Inl rejected, [ReplyMarkdownV2 help_message])"
    by (simp add: help_body_def reply_markdown_v2_def bind_io_def bot_call_def b rejected_def)
  have c2: "help_command w alice [] =
         (Inr (), [ReplyMarkdownV2 help_message,
                   LogError (str ''Error in help command: Bad Request: cannot parse entities''),
                   ReplyText (str ''An error occurred. Please try again.'')])"
    using paths [THEN conjunct2, THEN conjunct1, rule_format, OF h2]
    by (simp add: b rejected_def str_def)
  have h3: "speedtest_body w [] = (Inl unreachable, [running, Speedtest])"
    by (simp add: speedtest_body_def reply_text_def bind_io_def bot_call_def b
        run_speedtest_def s running_def)
  have c3: "speedtest_command w alice [] =
         (Inr (), [running, Speedtest,
                   LogError (str ''Error in speedtest command: ''
                             @ str ''Cannot retrieve speedtest configuration''),
                   ReplyText ([0x274c]
                     @ str '' Failed to run speed test. Please try again later.'')])"
    using paths [THEN conjunct2, THEN conjunct2, THEN conjunct1, rule_format, OF h3]
    by (simp add: b unreachable_def)
  have h4: "advanced_body w [] = (Inl unreachable, [running_advanced, Speedtest])"
    by (simp add: advanced_body_def reply_text_def bind_io_def bot_call_def b
        run_speedtest_def s running_advanced_def)
  have c4: "speedtest_advanced w alice [] =
         (Inr (), [running_advanced, Speedtest,
                   LogError (str ''Error in speedtest_advanced command: ''
                             @ str ''Cannot retrieve speedtest configuration''),
                   ReplyText ([0x274c]
                     @ str '' Failed to run advanced speed test. Please try again later.'')])"
    using paths [THEN conjunct2, THEN conjunct2, THEN conjunct2, THEN conjunct1, rule_format,
        OF h4]
    by (simp add: b unreachable_def)
  have h5: "ping_body w host [] =
         (Inl (Exn (str ''ping: command not found'')),
          [ReplyText (pinging_text host), Popen (ping_argv w host)])"
    by (simp add: ping_body_def reply_text_def bind_io_def bot_call_def b popen_def p)
  have c5: "ping_command w alice [host] [] =
         (Inr (), [ReplyText (pinging_text host), Popen (ping_argv w host),
                   LogError (str ''Error in ping command: ping: command not found''),
                   ReplyText ([0x274c] @ str '' Failed to ping example.com. Please try again.'')])"
    using paths [THEN conjunct2, THEN conjunct2, THEN conjunct2, THEN conjunct2, THEN conjunct1,
        rule_format, OF h5]
    by (simp add: b host_def str_def)
  have tp: "handler_for (str ''ping'') = Some ping_command"
    by (simp add: handler_for_def str_def)
  have th: "handler_for (str ''help'') = Some (\<lambda>env upd args. help_command env upd)"
    by (simp add: handler_for_def str_def)
  have em: "effective_message alice"
    by (simp add: alice_def)
  have b2: "bot w2 tr ev = first_call_fails tr ev" for tr ev
    by (simp add: w2_def)
  have h6: "ping_command w2 alice [] [] = (Inl timed_out, [ReplyText usage_text])"
    by (simp add: ping_command_def reply_text_def bot_call_then_return b2 first_call_fails_def
        timed_out_def)
  have c6: "error_handler w2 (Some alice) timed_out [ReplyText usage_text] =
         (Inr (), [ReplyText usage_text, global_log, ReplyText error_reply_text])
      \<and> process_update w2 alice (str ''ping'') [] [] =
         (Idle, [ReplyText usage_text, global_log, ReplyText error_reply_text])"
    using paths2 [THEN conjunct2, THEN conjunct2, THEN conjunct2, THEN conjunct2, THEN conjunct2,
        THEN conjunct1, rule_format, of ping_command timed_out "[ReplyText usage_text]"]
      tp em h6
    by (simp add: b2 first_call_fails_def alice_def error_log_text_def timed_out_def
        global_log_def str_def)
  have c7: "process_update w alice (str ''help'') [] [] =
         (Idle, [ReplyMarkdownV2 help_message,
                 LogError (str ''Error in help command: Bad Request: cannot parse entities''),
                 ReplyText (str ''An error occurred. Please try again.'')])"
    using paths [THEN conjunct2, THEN conjunct2, THEN conjunct2, THEN conjunct2, THEN conjunct2,
        THEN conjunct2, THEN conjunct1, rule_format,
        of "\<lambda>env upd args. help_command env upd"] th c2
    by simp
  from h1 c1 h2 c2 h3 c3 h4 c4 h5 c5 tp em h6 c6 th c7 show ?thesis
    unfolding Let_def w_def [symmetric] host_def [symmetric] hello_def [symmetric]
      rejected_def [symmetric] unreachable_def [symmetric] running_def [symmetric]
      running_advanced_def [symmetric] w2_def [symmetric] timed_out_def [symmetric]
      global_log_def [symmetric]
    by simp
qed

section \<open>Markup and the sanitizer\<close>

text \<open>
  C1 asks that every text from outside is passed through \<open>escape_markdown_v2\<close> before it
  is put into a message sent with MarkdownV2. The result text of the ping handler does
  so for the host (\<open>ping_result_text\<close>), and so does the advanced speedtest for sponsor,
  country and ISP (\<open>advanced_result\<close>). The text for output that cannot be parsed does
  not: \<open>/ping 10.0.0.1\<close> against a host that does not answer is answered, with
  \<open>parse_mode='MarkdownV2'\<close>, by a text that holds the host and the output of the ping
  utility as they are, full stops, parentheses and hyphens unescaped.
\<close>

theorem ping_unparsed_text_not_escaped:
  "(let stdout = str ''PING 10.0.0.1 (10.0.0.1) 56(84) bytes of data.'' @ [newline, newline]
                 @ str ''--- 10.0.0.1 ping statistics ---'' @ [newline]
                 @ str ''4 packets transmitted, 0 received, 100% packet loss, time 3060ms''
                 @ [newline];
        env = world (str ''Linux'') (Inr (stdout, [])) accept_all;
        host = str ''10.0.0.1''
    in snd (ping_command env alice [host] []) =
         [ReplyText ([0x23f3] @ str '' Pinging 10.0.0.1...''),
          Popen [str ''ping'', str ''-c'', str ''4'', str ''10.0.0.1''],
          EditText 0
            ([0x26a0, 0xfe0f] @ str '' Could not parse ping results for 10.0.0.1:''
             @ [newline, newline]
             @ str ''`PING 10.0.0.1 (10.0.0.1) 56(84) bytes of data.'' @ [newline, newline]
             @ str ''--- 10.0.0.1 ping statistics ---'' @ [newline]
             @ str ''4 packets transmitted, 0 received, 100% packet loss, time 3060ms''
             @ [newline] @ str ''`'')
            MarkdownV2]
     \<and> escape_markdown_v2 host
         = str ''10'' @ [backslash] @ str ''.0'' @ [backslash] @ str ''.0'' @ [backslash] @ str ''.1''
     \<and> ping_unparsed_text host stdout
         \<noteq> ping_unparsed_text (escape_markdown_v2 host) (escape_markdown_v2 stdout))"
proof -
  define stdout where
    "stdout = str ''PING 10.0.0.1 (10.0.0.1) 56(84) bytes of data.'' @ [newline, newline]
                 @ str ''--- 10.0.0.1 ping statistics ---'' @ [newline]
                 @ str ''4 packets transmitted, 0 received, 100% packet loss, time 3060ms''
                 @ [newline]"
  define env where "env = world (str ''Linux'') (Inr (stdout, [])) accept_all"
  define host where "host = str ''10.0.0.1''"
  have h1: "bot env [] (ReplyText (pinging_text host)) = None"
    by (simp add: env_def world_def accept_all_def)
  have h2: "popen_communicate env (ping_argv env host) = Inr (stdout, [])"
    by (simp add: env_def world_def)
  have h3: "findall_stat (unicode_digit env) stdout = []"
    by (simp add: env_def world_def stdout_def str_def rx_stat_match_def rx_stat_ends_def
        rx_plus_def rx_opt_def rx_lit_def ascii_digit_def)
  have b: "bot env tr ev = None" for tr ev
    by (simp add: env_def world_def accept_all_def)
  have argv: "ping_argv env host = [str ''ping'', str ''-c'', str ''4'', host]"
    by (simp add: ping_argv_def env_def world_def lower_def str_def)
  have "snd (ping_command env alice [host] []) =
          [ReplyText (pinging_text host), Popen (ping_argv env host),
           EditText 0 (ping_unparsed_text host stdout) MarkdownV2]"
    using ping_command_run [OF h1 h2, of "EditText 0 (ping_unparsed_text host stdout) MarkdownV2"
        alice "[]"] ping_report_unparsed [OF h3, of host 0]
    by (simp add: b)
  then have sent: "snd (ping_command env alice [host] []) =
         [ReplyText ([0x23f3] @ str '' Pinging 10.0.0.1...''),
          Popen [str ''ping'', str ''-c'', str ''4'', str ''10.0.0.1''],
          EditText 0
            ([0x26a0, 0xfe0f] @ str '' Could not parse ping results for 10.0.0.1:''
             @ [newline, newline]
             @ str ''`PING 10.0.0.1 (10.0.0.1) 56(84) bytes of data.'' @ [newline, newline]
             @ str ''--- 10.0.0.1 ping statistics ---'' @ [newline]
             @ str ''4 packets transmitted, 0 received, 100% packet loss, time 3060ms''
             @ [newline] @ str ''`'')
            MarkdownV2]"
    unfolding argv
    by (simp add: pinging_text_def ping_unparsed_text_def host_def stdout_def str_def)
  have esc: "escape_markdown_v2 host
         = str ''10'' @ [backslash] @ str ''.0'' @ [backslash] @ str ''.0'' @ [backslash] @ str ''.1''"
    by (simp add: host_def str_def escape_markdown_v2_Cons escape_markdown_v2_Nil reserved_def
        backslash_def)
  have "ping_unparsed_text host stdout
         \<noteq> ping_unparsed_text (escape_markdown_v2 host) (escape_markdown_v2 stdout)"
    unfolding esc by (simp add: ping_unparsed_text_def host_def str_def backslash_def)
  with sent esc show ?thesis
    unfolding Let_def stdout_def [symmetric] env_def [symmetric] host_def [symmetric]
    by simp
qed

end
